theory Spec2Isabelle
  imports Complex_Main "HOL-Library.Char_ord" "HOL-Library.List_Lexorder" "HOL-Library.Multiset"
    "HOL-Library.Log_Nat"
begin

section \<open>Coin Tapper: tap to earn, redeem, withdrawal history, payout function\<close>

text \<open>
  The development embeds four source units:
  \<^item> \<^verbatim>\<open>src/components/RedeemCoins.tsx\<close>: the tier table, \<^verbatim>\<open>canAfford\<close>,
    \<^verbatim>\<open>getProgressPercentage\<close> and \<^verbatim>\<open>handleRedeem\<close>;
  \<^item> \<^verbatim>\<open>src/components/TapToEarn.tsx\<close>: \<^verbatim>\<open>handleTap\<close>;
  \<^item> \<^verbatim>\<open>src/App.tsx\<close>: \<^verbatim>\<open>loadUserStats\<close>, \<^verbatim>\<open>updateCoins\<close>, \<^verbatim>\<open>updateWithdrawal\<close>
    and the wiring of the two components;
  \<^item> the payout HTTP function (\<^verbatim>\<open>serve\<close>) and the withdrawal history view
    (\<^verbatim>\<open>loadWithdrawals\<close>).

  Conventions of the embedding.
  \<^item> Coin counts are \<^typ>\<open>int\<close> and dollar amounts are \<^typ>\<open>rat\<close>; their sums and
    differences are taken exact. The division and the multiplication of the progress
    bar round their exact result to a double (binary64, to nearest, ties to even,
    with overflow and subnormal numbers), and the division keeps JavaScript's answers
    for a zero divisor (\<^verbatim>\<open>Infinity\<close>, \<^verbatim>\<open>-Infinity\<close>, \<^verbatim>\<open>NaN\<close>). The sign of a zero
    is not modelled. A coin count of the source is a double of integral value; the
    functions here take any integer.
  \<^item> Strings are \<^typ>\<open>string\<close>; a character stands for the code unit of the same
    number, so the strings covered are those of code units below 256.
  \<^item> Asynchronous functions are run to completion one after the other: a function
    takes the state it sees and returns the state it leaves. Interleavings of
    several pending handlers are not modelled.
  \<^item> What the outside decides (whether a call of the store or of the gateway
    resolves or rejects, the clock) is an argument of the function.
  \<^item> Rendering only (animations, haptics, console output, CSS) is left out.
\<close>

subsection \<open>JavaScript numbers as far as the progress bar needs them\<close>

text \<open>A number: a double with its exact value, an infinity, or \<^verbatim>\<open>NaN\<close>.\<close>

datatype jsnum = NaN | NegInfinity | Finite rat | Infinity

text \<open>The nearest integer, the even one of two that are equally near.\<close>

definition round_half_even :: "rat \<Rightarrow> int" where
  "round_half_even z =
     (let f = \<lfloor>z\<rfloor>; r = z - of_int f
      in if r < 1 / 2 then f else if 1 / 2 < r then f + 1 else if even f then f else f + 1)"

text \<open>
  The binary exponent of a number other than zero: the \<open>e\<close> with
  \<open>2 powi e \<le> \<bar>x\<bar> < 2 powi (e + 1)\<close>, from the bit lengths of numerator and
  denominator.
\<close>

definition exponent :: "rat \<Rightarrow> int" where
  "exponent x =
     (case quotient_of \<bar>x\<bar> of
        (p, q) \<Rightarrow> let d = bitlen p - bitlen q in if 2 powi d \<le> \<bar>x\<bar> then d else d - 1)"

text \<open>
  The double an arithmetic operation returns for the exact result \<open>x\<close>: \<open>x\<close> rounded
  to 53 significant bits, or to a multiple of \<open>2 powi (- 1074)\<close> below the normal
  range, and an infinity when the rounded value reaches \<open>2 powi 1024\<close>.
\<close>

definition binary64 :: "rat \<Rightarrow> jsnum" where
  "binary64 x =
     (if x = 0 then Finite 0
      else let k = max (exponent x) (- 1022) - 52;
               y = of_int (round_half_even (\<bar>x\<bar> / 2 powi k)) * 2 powi k
           in if 2 powi 1024 \<le> y then (if 0 < x then Infinity else NegInfinity)
              else Finite (sgn x * y))"

text \<open>\<^verbatim>\<open>a / b\<close> on two numbers of integral value.\<close>

definition js_div :: "int \<Rightarrow> int \<Rightarrow> jsnum" where
  "js_div a b =
     (if b = 0 then (if a = 0 then NaN else if 0 < a then Infinity else NegInfinity)
      else binary64 (of_int a / of_int b))"

text \<open>\<^verbatim>\<open>x * y\<close>.\<close>

fun js_mul :: "jsnum \<Rightarrow> jsnum \<Rightarrow> jsnum" where
  "js_mul NaN y = NaN"
| "js_mul x NaN = NaN"
| "js_mul (Finite a) (Finite b) = binary64 (a * b)"
| "js_mul (Finite a) Infinity = (if a = 0 then NaN else if 0 < a then Infinity else NegInfinity)"
| "js_mul (Finite a) NegInfinity = (if a = 0 then NaN else if 0 < a then NegInfinity else Infinity)"
| "js_mul Infinity (Finite b) = (if b = 0 then NaN else if 0 < b then Infinity else NegInfinity)"
| "js_mul NegInfinity (Finite b) = (if b = 0 then NaN else if 0 < b then NegInfinity else Infinity)"
| "js_mul Infinity Infinity = Infinity"
| "js_mul NegInfinity NegInfinity = Infinity"
| "js_mul Infinity NegInfinity = NegInfinity"
| "js_mul NegInfinity Infinity = NegInfinity"

text \<open>\<^verbatim>\<open>Math.min(x, y)\<close>: \<^verbatim>\<open>NaN\<close> if either argument is.\<close>

fun Math_min :: "jsnum \<Rightarrow> jsnum \<Rightarrow> jsnum" where
  "Math_min NaN y = NaN"
| "Math_min x NaN = NaN"
| "Math_min NegInfinity y = NegInfinity"
| "Math_min x NegInfinity = NegInfinity"
| "Math_min Infinity y = y"
| "Math_min x Infinity = x"
| "Math_min (Finite a) (Finite b) = Finite (min a b)"

subsection \<open>Tiers, affordability and progress (RedeemCoins.tsx)\<close>

record RedeemTier =
  tier_coins :: int
  tier_amount :: rat
  label :: string
  popular :: "bool option"

definition redeemTiers :: "RedeemTier list" where
  "redeemTiers =
     [\<lparr>tier_coins = 5000, tier_amount = 1, label = ''$1'', popular = None\<rparr>,
      \<lparr>tier_coins = 10000, tier_amount = 5, label = ''$5'', popular = Some True\<rparr>,
      \<lparr>tier_coins = 100000, tier_amount = 20, label = ''$20'', popular = None\<rparr>,
      \<lparr>tier_coins = 1000000, tier_amount = 100, label = ''$100'', popular = None\<rparr>]"

text \<open>\<^verbatim>\<open>Math.min((coins / tierCoins) * 100, 100)\<close>, \<^verbatim>\<open>coins\<close> being the component's prop.\<close>

definition getProgressPercentage :: "int \<Rightarrow> int \<Rightarrow> jsnum" where
  "getProgressPercentage coins tierCoins =
     Math_min (js_mul (js_div coins tierCoins) (Finite 100)) (Finite 100)"

text \<open>\<^verbatim>\<open>coins >= tierCoins\<close>.\<close>

definition canAfford :: "int \<Rightarrow> int \<Rightarrow> bool" where
  "canAfford coins tierCoins = (coins \<ge> tierCoins)"

subsection \<open>Strings: white space and \<^verbatim>\<open>trim\<close>\<close>

text \<open>
  The code units below 256 that JavaScript counts as white space or line terminator
  (the class \<^verbatim>\<open>\s\<close> of a regular expression, and what \<^verbatim>\<open>String.prototype.trim\<close>
  strips): tab, line feed, vertical tab, form feed, carriage return, space and the
  no-break space.
\<close>

definition js_space :: "char \<Rightarrow> bool" where
  "js_space c = (of_char c \<in> {9, 10, 11, 12, 13, 32, 160 :: nat})"

definition js_trim :: "string \<Rightarrow> string" where
  "js_trim s = rev (dropWhile js_space (rev (dropWhile js_space s)))"

subsection \<open>Records of the store (App.tsx, WithdrawalHistory)\<close>

text \<open>
  The fields of \<^verbatim>\<open>interface UserStats\<close> and of the object handed to
  \<^verbatim>\<open>blink.db.withdrawals.create\<close>. Fields that several interfaces share carry a
  prefix (\<^verbatim>\<open>us_\<close>, \<^verbatim>\<open>wd_\<close>), since a record field is a constant of the theory.
  The identifier the store gives a withdrawal is not modelled.
\<close>

record UserStats =
  us_id :: string
  us_userId :: string
  totalCoins :: int
  totalWithdrawn :: rat
  us_createdAt :: string
  us_updatedAt :: string

record Withdrawal =
  wd_userId :: string
  wd_amount :: rat
  coinsSpent :: int
  wd_paypalEmail :: string
  wd_status :: string
  batchId :: string
  wd_createdAt :: string

text \<open>A call of the store or of a promise either resolves or rejects.\<close>

datatype outcome = Resolves | Rejects

text \<open>
  What the application sees and changes: the signed-in user's id (\<^verbatim>\<open>user?.id\<close>,
  \<open>None\<close> while \<^verbatim>\<open>user\<close> is null), the React state \<^verbatim>\<open>userStats\<close>, the two tables of
  the store, and the simulated payouts performed so far, each with its duration in
  milliseconds (\<^verbatim>\<open>setTimeout(resolve, 2000)\<close>).
\<close>

record App =
  user :: "string option"
  userStats :: "UserStats option"
  db_userStats :: "UserStats list"
  db_withdrawals :: "Withdrawal list"
  simulated_payouts :: "nat list"

text \<open>
  The persistence collaborator \<^verbatim>\<open>blink.db\<close> (imported from \<^verbatim>\<open>./blink/client\<close>) is
  not among the sources. The specification describes it as an opaque store with
  \<^verbatim>\<open>create(record)\<close>, \<^verbatim>\<open>list(filter, order, limit)\<close> and \<^verbatim>\<open>update(id, partialRecord)\<close>,
  with query by field and ordering. Here a table is the list of its records in the
  order of creation, and a call that rejects leaves the table as it was.
\<close>

text \<open>Modelled from the spec: \<^verbatim>\<open>create(record)\<close> of the store appends the record.\<close>

definition db_create :: "'r \<Rightarrow> 'r list \<Rightarrow> 'r list" where
  "db_create r table = table @ [r]"

text \<open>
  Modelled from the spec: \<^verbatim>\<open>update(id, partialRecord)\<close> of the store, on the table
  \<^verbatim>\<open>userStats\<close>, applies the partial record to the records of that id.
\<close>

definition db_update :: "string \<Rightarrow> (UserStats \<Rightarrow> UserStats) \<Rightarrow> UserStats list \<Rightarrow> UserStats list" where
  "db_update i partialRecord table = map (\<lambda>r. if us_id r = i then partialRecord r else r) table"

text \<open>The argument of \<^verbatim>\<open>list\<close> on the table \<^verbatim>\<open>withdrawals\<close>: \<^verbatim>\<open>where\<close>, \<^verbatim>\<open>orderBy\<close>, \<^verbatim>\<open>limit\<close>.\<close>

datatype direction = asc | desc

record withdrawals_query =
  where_userId :: string
  orderBy_createdAt :: "direction option"
  limit :: "nat option"

text \<open>
  Modelled from the spec: the ordering of \<^verbatim>\<open>list\<close> of the store.
  \<^verbatim>\<open>orderBy: { createdAt: 'desc' }\<close> sorts by the creation time stamp, latest first;
  time stamps are the strings of \<^verbatim>\<open>toISOString\<close>, compared as strings.
\<close>

definition order_withdrawals :: "direction option \<Rightarrow> Withdrawal list \<Rightarrow> Withdrawal list" where
  "order_withdrawals d rows =
     (case d of
        None \<Rightarrow> rows
      | Some asc \<Rightarrow> sort_key wd_createdAt rows
      | Some desc \<Rightarrow> rev (sort_key wd_createdAt rows))"

text \<open>Modelled from the spec: the limit of \<^verbatim>\<open>list\<close> of the store keeps the first \<open>n\<close> records.\<close>

definition limit_rows :: "nat option \<Rightarrow> 'r list \<Rightarrow> 'r list" where
  "limit_rows n rows = (case n of None \<Rightarrow> rows | Some k \<Rightarrow> take k rows)"

text \<open>
  Modelled from the spec: \<^verbatim>\<open>list(filter, order, limit)\<close> of the store on the table
  \<^verbatim>\<open>withdrawals\<close>: the records of the user, ordered, then limited.
\<close>

definition withdrawals_list :: "withdrawals_query \<Rightarrow> Withdrawal list \<Rightarrow> Withdrawal list" where
  "withdrawals_list q table =
     limit_rows (limit q)
       (order_withdrawals (orderBy_createdAt q)
          (filter (\<lambda>r. wd_userId r = where_userId q) table))"

text \<open>
  Modelled from the spec: \<^verbatim>\<open>list\<close> of the store on the table \<^verbatim>\<open>userStats\<close>, for
  \<^verbatim>\<open>{ where: { userId }, limit }\<close>.
\<close>

definition userStats_list :: "string \<Rightarrow> nat \<Rightarrow> UserStats list \<Rightarrow> UserStats list" where
  "userStats_list uid n table = take n (filter (\<lambda>r. us_userId r = uid) table)"

subsection \<open>The application (App.tsx)\<close>

text \<open>
  What the outside decides during one call of a handler: whether the calls of the
  store resolve, the identifier the store gives a record it creates, \<^verbatim>\<open>Date.now()\<close>
  as the template string renders it, and the time stamps for \<^verbatim>\<open>createdAt\<close> and
  \<^verbatim>\<open>updatedAt\<close> (the readings of \<^verbatim>\<open>new Date().toISOString()\<close>, or what the store
  fills in when the handler gives none).
\<close>

record io =
  list_result :: outcome
  create_result :: outcome
  update_result :: outcome
  store_id :: string
  Date_now :: string
  createdAt_now :: string
  updatedAt_now :: string

text \<open>
  \<^verbatim>\<open>loadUserStats\<close>: the first record of the user, or a fresh one with no coins and
  nothing withdrawn; a rejected call is caught and changes nothing.
\<close>

definition loadUserStats :: "io \<Rightarrow> App \<Rightarrow> App" where
  "loadUserStats e s =
     (case user s of
        None \<Rightarrow> s
      | Some uid \<Rightarrow>
          if uid = [] then s
          else (case list_result e of
                  Rejects \<Rightarrow> s
                | Resolves \<Rightarrow>
                    (case userStats_list uid 1 (db_userStats s) of
                       [] \<Rightarrow>
                         (case create_result e of
                            Rejects \<Rightarrow> s
                          | Resolves \<Rightarrow>
                              let newStats = \<lparr>us_id = store_id e, us_userId = uid, totalCoins = 0,
                                              totalWithdrawn = 0, us_createdAt = createdAt_now e,
                                              us_updatedAt = updatedAt_now e\<rparr>
                              in s\<lparr>db_userStats := db_create newStats (db_userStats s),
                                   userStats := Some newStats\<rparr>)
                     | st # rest \<Rightarrow> s\<lparr>userStats := Some st\<rparr>)))"

text \<open>\<^verbatim>\<open>updateCoins(newCoinCount)\<close>.\<close>

definition updateCoins :: "io \<Rightarrow> int \<Rightarrow> App \<Rightarrow> App" where
  "updateCoins e newCoinCount s =
     (case user s of
        None \<Rightarrow> s
      | Some uid \<Rightarrow>
          if uid = [] then s
          else (case userStats s of
                  None \<Rightarrow> s
                | Some st \<Rightarrow>
                    (case update_result e of
                       Rejects \<Rightarrow> s
                     | Resolves \<Rightarrow>
                         s\<lparr>db_userStats :=
                              db_update (us_id st)
                                (\<lambda>r. r\<lparr>totalCoins := newCoinCount,
                                       us_updatedAt := updatedAt_now e\<rparr>)
                                (db_userStats s),
                           userStats := Some (st\<lparr>totalCoins := newCoinCount\<rparr>)\<rparr>)))"

text \<open>
  \<^verbatim>\<open>updateWithdrawal(amount, coinsSpent, paypalEmail)\<close>, with the boolean it returns.
  The guard \<^verbatim>\<open>!user?.id || !userStats\<close> (no user, an empty id, or no record loaded)
  is outside the \<^verbatim>\<open>try\<close>; inside it come the simulated delay, the creation
  of the record, the update of the user's record in the store and \<^verbatim>\<open>setUserStats\<close>.
  A rejection of either call of the store is caught and gives \<^verbatim>\<open>false\<close>.
\<close>

definition updateWithdrawal :: "io \<Rightarrow> rat \<Rightarrow> int \<Rightarrow> string \<Rightarrow> App \<Rightarrow> bool \<times> App" where
  "updateWithdrawal e amount coinsSpent' paypalEmail' s =
     (case user s of
        None \<Rightarrow> (False, s)
      | Some uid \<Rightarrow>
          if uid = [] then (False, s)
          else (case userStats s of
                  None \<Rightarrow> (False, s)
                | Some st \<Rightarrow>
                    let s1 = s\<lparr>simulated_payouts := simulated_payouts s @ [2000]\<rparr> in
                    (case create_result e of
                       Rejects \<Rightarrow> (False, s1)
                     | Resolves \<Rightarrow>
                         let s2 = s1\<lparr>db_withdrawals :=
                                       db_create
                                         \<lparr>wd_userId = uid,
                                          wd_amount = amount,
                                          coinsSpent = coinsSpent',
                                          wd_paypalEmail = paypalEmail',
                                          wd_status = ''completed'',
                                          batchId = ''DEMO_'' @ Date_now e,
                                          wd_createdAt = createdAt_now e\<rparr>
                                         (db_withdrawals s1)\<rparr>;
                             newCoinCount = totalCoins st - coinsSpent';
                             newTotalWithdrawn = totalWithdrawn st + amount
                         in (case update_result e of
                               Rejects \<Rightarrow> (False, s2)
                             | Resolves \<Rightarrow>
                                 (True,
                                  s2\<lparr>db_userStats :=
                                       db_update (us_id st)
                                         (\<lambda>r. r\<lparr>totalCoins := newCoinCount,
                                                totalWithdrawn := newTotalWithdrawn,
                                                us_updatedAt := updatedAt_now e\<rparr>)
                                         (db_userStats s2),
                                     userStats := Some (st\<lparr>totalCoins := newCoinCount,
                                                          totalWithdrawn := newTotalWithdrawn\<rparr>)\<rparr>)))))"

subsection \<open>Tapping (TapToEarn.tsx)\<close>

text \<open>\<^verbatim>\<open>handleTap\<close>: \<^verbatim>\<open>onCoinsUpdate(coins + 100)\<close>; the rest of the handler animates.\<close>

definition handleTap :: "int \<Rightarrow> (int \<Rightarrow> 'w \<Rightarrow> 'w) \<Rightarrow> 'w \<Rightarrow> 'w" where
  "handleTap coins onCoinsUpdate w = (let newCoins = coins + 100 in onCoinsUpdate newCoins w)"

subsection \<open>Redeeming (RedeemCoins.tsx)\<close>

text \<open>The state of the component, and the toasts it shows, by their titles.\<close>

record RedeemCoins =
  selectedTier :: "RedeemTier option"
  paypalEmail :: string
  isProcessing :: bool
  isDialogOpen :: bool

datatype toast =
    Missing_Information
  | Insufficient_Coins
  | Processing_Withdrawal
  | Withdrawal_Successful
  | Withdrawal_Failed
  | Error_toast

text \<open>The promise \<^verbatim>\<open>onWithdrawal\<close> returns: fulfilled with a boolean, or rejected.\<close>

datatype promise = Fulfilled bool | Rejected

text \<open>
  \<^verbatim>\<open>handleRedeem\<close>, over the prop \<^verbatim>\<open>coins\<close>, the callback \<^verbatim>\<open>onWithdrawal\<close> and whatever
  state \<open>w\<close> the callback works on. It returns the component's state, the callback's
  state and the toasts shown, in order.
\<close>

definition handleRedeem ::
  "int \<Rightarrow> (rat \<Rightarrow> int \<Rightarrow> string \<Rightarrow> 'w \<Rightarrow> promise \<times> 'w) \<Rightarrow> RedeemCoins \<Rightarrow> 'w
     \<Rightarrow> RedeemCoins \<times> 'w \<times> toast list" where
  "handleRedeem coins onWithdrawal c w =
     (case selectedTier c of
        None \<Rightarrow> (c, w, [Missing_Information])
      | Some t \<Rightarrow>
          if js_trim (paypalEmail c) = [] then (c, w, [Missing_Information])
          else if coins < tier_coins t then (c, w, [Insufficient_Coins])
          else (case onWithdrawal (tier_amount t) (tier_coins t) (paypalEmail c) w of
                  (Fulfilled True, w') \<Rightarrow>
                    (c\<lparr>isDialogOpen := False, paypalEmail := [], selectedTier := None,
                       isProcessing := False\<rparr>,
                     w', [Processing_Withdrawal, Withdrawal_Successful])
                | (Fulfilled False, w') \<Rightarrow>
                    (c\<lparr>isProcessing := False\<rparr>, w', [Processing_Withdrawal, Withdrawal_Failed])
                | (Rejected, w') \<Rightarrow>
                    (c\<lparr>isProcessing := False\<rparr>, w', [Processing_Withdrawal, Error_toast])))"

subsection \<open>The wiring of the components in App.tsx\<close>

text \<open>\<^verbatim>\<open>coins={userStats?.totalCoins || 0}\<close>.\<close>

definition App_coins :: "App \<Rightarrow> int" where
  "App_coins s =
     (case userStats s of
        None \<Rightarrow> 0
      | Some st \<Rightarrow> if totalCoins st = 0 then 0 else totalCoins st)"

text \<open>\<^verbatim>\<open><TapToEarn coins=... onCoinsUpdate={updateCoins} />\<close>, tapped once.\<close>

definition App_tap :: "io \<Rightarrow> App \<Rightarrow> App" where
  "App_tap e s = handleTap (App_coins s) (updateCoins e) s"

text \<open>\<^verbatim>\<open><RedeemCoins coins=... onWithdrawal={updateWithdrawal} />\<close>, confirmed once.\<close>

definition App_redeem :: "io \<Rightarrow> RedeemCoins \<Rightarrow> App \<Rightarrow> RedeemCoins \<times> App \<times> toast list" where
  "App_redeem e c s =
     handleRedeem (App_coins s)
       (\<lambda>amount coinsSpent' paypalEmail' w.
           case updateWithdrawal e amount coinsSpent' paypalEmail' w of
             (success, w') \<Rightarrow> (Fulfilled success, w'))
       c s"

text \<open>
  The events of a session: a change of the signed-in user (\<^verbatim>\<open>setUser(state.user)\<close>),
  loading the user's record, a tap, the choice of a tier (\<^verbatim>\<open>setSelectedTier(tier)\<close>),
  typing the address (\<^verbatim>\<open>setPaypalEmail\<close>) and confirming the redemption. Each carries
  what the outside decides during it.
\<close>

datatype event =
    Auth "string option"
  | Load io
  | Tap io
  | Select RedeemTier
  | Type_email string
  | Confirm io

fun step :: "event \<Rightarrow> RedeemCoins \<times> App \<Rightarrow> RedeemCoins \<times> App" where
  "step (Auth u) (c, s) = (c, s\<lparr>user := u\<rparr>)"
| "step (Load e) (c, s) = (c, loadUserStats e s)"
| "step (Tap e) (c, s) = (c, App_tap e s)"
| "step (Select t) (c, s) = (c\<lparr>selectedTier := Some t\<rparr>, s)"
| "step (Type_email a) (c, s) = (c\<lparr>paypalEmail := a\<rparr>, s)"
| "step (Confirm e) (c, s) = (case App_redeem e c s of (c', s', ts) \<Rightarrow> (c', s'))"

fun run :: "event list \<Rightarrow> RedeemCoins \<times> App \<Rightarrow> RedeemCoins \<times> App" where
  "run [] cs = cs"
| "run (ev # evs) cs = run evs (step ev cs)"

text \<open>The balance is non-negative, in the React state and in every record of the store.\<close>

definition balance_ok :: "App \<Rightarrow> bool" where
  "balance_ok s =
     ((case userStats s of None \<Rightarrow> True | Some st \<Rightarrow> 0 \<le> totalCoins st)
      \<and> list_all (\<lambda>r. 0 \<le> totalCoins r) (db_userStats s))"

subsection \<open>The withdrawal history view\<close>

record WithdrawalHistory =
  withdrawals :: "Withdrawal list"
  loading :: bool

text \<open>\<^verbatim>\<open>useState<Withdrawal[]>([])\<close> and \<^verbatim>\<open>useState(true)\<close>.\<close>

definition WithdrawalHistory_initial :: WithdrawalHistory where
  "WithdrawalHistory_initial = \<lparr>withdrawals = [], loading = True\<rparr>"

text \<open>The argument of \<^verbatim>\<open>blink.db.withdrawals.list\<close> in \<^verbatim>\<open>loadWithdrawals\<close>.\<close>

definition loadWithdrawals_query :: "string \<Rightarrow> withdrawals_query" where
  "loadWithdrawals_query userId =
     \<lparr>where_userId = userId, orderBy_createdAt = Some desc, limit = Some 50\<rparr>"

text \<open>
  \<^verbatim>\<open>loadWithdrawals\<close>: the answer of the store becomes the state \<^verbatim>\<open>withdrawals\<close>; a
  rejection is caught and leaves it; \<^verbatim>\<open>loading\<close> ends either way.
\<close>

definition loadWithdrawals ::
  "outcome \<Rightarrow> string \<Rightarrow> Withdrawal list \<Rightarrow> WithdrawalHistory \<Rightarrow> WithdrawalHistory" where
  "loadWithdrawals list_outcome userId table h =
     (case list_outcome of
        Resolves \<Rightarrow>
          h\<lparr>withdrawals := withdrawals_list (loadWithdrawals_query userId) table,
            loading := False\<rparr>
      | Rejects \<Rightarrow> h\<lparr>loading := False\<rparr>)"

text \<open>The count the view displays, \<^verbatim>\<open>{withdrawals.length}\<close>.\<close>

definition displayed_count :: "WithdrawalHistory \<Rightarrow> nat" where
  "displayed_count h = length (withdrawals h)"

subsection \<open>Regular expressions, for \<^verbatim>\<open>emailRegex\<close>\<close>

text \<open>
  Regular expressions over character classes, matched against a whole string by
  derivatives. \<^verbatim>\<open>/^[^\s@]+@[^\s@]+\.[^\s@]+$/\<close> has no flag, so \<^verbatim>\<open>^\<close> and \<^verbatim>\<open>$\<close> are the
  two ends of the string and \<^verbatim>\<open>test\<close> asks whether the whole string is in the language.
\<close>

datatype rexp =
    Nothing
  | Epsilon
  | Class "char \<Rightarrow> bool"
  | Seq rexp rexp
  | Alt rexp rexp
  | Star rexp

fun nullable :: "rexp \<Rightarrow> bool" where
  "nullable Nothing = False"
| "nullable Epsilon = True"
| "nullable (Class p) = False"
| "nullable (Seq r s) = (nullable r \<and> nullable s)"
| "nullable (Alt r s) = (nullable r \<or> nullable s)"
| "nullable (Star r) = True"

fun deriv :: "char \<Rightarrow> rexp \<Rightarrow> rexp" where
  "deriv c Nothing = Nothing"
| "deriv c Epsilon = Nothing"
| "deriv c (Class p) = (if p c then Epsilon else Nothing)"
| "deriv c (Seq r s) =
     (if nullable r then Alt (Seq (deriv c r) s) (deriv c s) else Seq (deriv c r) s)"
| "deriv c (Alt r s) = Alt (deriv c r) (deriv c s)"
| "deriv c (Star r) = Seq (deriv c r) (Star r)"

fun matches :: "rexp \<Rightarrow> string \<Rightarrow> bool" where
  "matches r [] = nullable r"
| "matches r (c # cs) = matches (deriv c r) cs"

text \<open>\<^verbatim>\<open>r+\<close>, and the class \<^verbatim>\<open>[^\s@]\<close>.\<close>

definition Plus :: "rexp \<Rightarrow> rexp" where
  "Plus r = Seq r (Star r)"

definition not_space_at :: "char \<Rightarrow> bool" where
  "not_space_at c = (\<not> js_space c \<and> c \<noteq> CHR ''@'')"

definition emailRegex :: rexp where
  "emailRegex =
     Seq (Plus (Class not_space_at))
       (Seq (Class (\<lambda>c. c = CHR ''@''))
          (Seq (Plus (Class not_space_at))
             (Seq (Class (\<lambda>c. c = CHR ''.''))
                (Plus (Class not_space_at)))))"

definition emailRegex_test :: "string \<Rightarrow> bool" where
  "emailRegex_test s = matches emailRegex s"

text \<open>
  The language of an expression, to say what the matcher decides: the strings of a
  sequence are the concatenations, and those of \<^verbatim>\<open>r*\<close> the concatenations of any
  number of strings of \<^verbatim>\<open>r\<close>.
\<close>

inductive_set star :: "string set \<Rightarrow> string set" for A :: "string set" where
  empty: "[] \<in> star A"
| more: "u \<in> A \<Longrightarrow> v \<in> star A \<Longrightarrow> u @ v \<in> star A"

fun lang :: "rexp \<Rightarrow> string set" where
  "lang Nothing = {}"
| "lang Epsilon = {[]}"
| "lang (Class p) = {[c] | c. p c}"
| "lang (Seq r s) = {u @ v | u v. u \<in> lang r \<and> v \<in> lang s}"
| "lang (Alt r s) = lang r \<union> lang s"
| "lang (Star r) = star (lang r)"

subsection \<open>The payout HTTP function\<close>

text \<open>
  A JSON value as \<^verbatim>\<open>req.json()\<close> or \<^verbatim>\<open>response.json()\<close> gives it, with \<^verbatim>\<open>undefined\<close>
  added for what reading a missing property gives. An object is the list of its
  properties; \<open>map_of\<close> reads one.
\<close>

datatype json =
    JUndefined
  | JNull
  | JBool bool
  | JNum rat
  | JStr string
  | JArr "json list"
  | JObj "(string \<times> json) list"

text \<open>What the \<^verbatim>\<open>catch\<close> gets: a \<^verbatim>\<open>TypeError\<close> of the engine, or a rejection with its message.\<close>

datatype exn = TypeError | Failure string

text \<open>\<^verbatim>\<open>!v\<close> is \<open>\<not> truthy v\<close>: \<^verbatim>\<open>undefined\<close>, \<^verbatim>\<open>null\<close>, \<^verbatim>\<open>false\<close>, \<^verbatim>\<open>0\<close> and \<^verbatim>\<open>""\<close> are falsy.\<close>

fun truthy :: "json \<Rightarrow> bool" where
  "truthy JUndefined = False"
| "truthy JNull = False"
| "truthy (JBool b) = b"
| "truthy (JNum n) = (n \<noteq> 0)"
| "truthy (JStr s) = (s \<noteq> [])"
| "truthy (JArr xs) = True"
| "truthy (JObj ps) = True"

text \<open>
  Reading the property \<open>k\<close> of a value (\<^verbatim>\<open>v.k\<close>, or \<^verbatim>\<open>const { k } = v\<close>): a
  \<^verbatim>\<open>TypeError\<close> on \<^verbatim>\<open>null\<close> and \<^verbatim>\<open>undefined\<close>, the property of an object if it has
  it, and \<^verbatim>\<open>undefined\<close> otherwise (none of the names read here is a property of a
  boolean, a number, a string or an array).
\<close>

fun get_prop :: "json \<Rightarrow> string \<Rightarrow> exn + json" where
  "get_prop JUndefined k = Inl TypeError"
| "get_prop JNull k = Inl TypeError"
| "get_prop (JObj ps) k = (case map_of ps k of None \<Rightarrow> Inr JUndefined | Some v \<Rightarrow> Inr v)"
| "get_prop v k = Inr JUndefined"

text \<open>
  Where the conversion of a parsed value to a string throws a \<^verbatim>\<open>TypeError\<close>. A value
  that came from \<^verbatim>\<open>JSON.parse\<close> holds no function, so an object with a property of its
  own named \<^verbatim>\<open>toString\<close> has no callable \<^verbatim>\<open>toString\<close>, and neither its own \<^verbatim>\<open>valueOf\<close>
  nor the inherited one gives a primitive. An array is joined from the conversions
  of its elements, \<^verbatim>\<open>null\<close> giving the empty string. This is the conversion of
  \<^verbatim>\<open>${v}\<close> in a template and of the argument of \<^verbatim>\<open>emailRegex.test\<close>.
\<close>

fun throws_ToString :: "json \<Rightarrow> bool" where
  "throws_ToString (JObj ps) = (map_of ps ''toString'' \<noteq> None)"
| "throws_ToString (JArr xs) = (\<exists>x \<in> set xs. throws_ToString x)"
| "throws_ToString v = False"

text \<open>
  The call \<^verbatim>\<open>v.toString()\<close>: a \<^verbatim>\<open>TypeError\<close> on \<^verbatim>\<open>null\<close> and \<^verbatim>\<open>undefined\<close>, on an
  object whose own \<^verbatim>\<open>toString\<close> is no function, and from the join of an array.
\<close>

definition throws_toString_call :: "json \<Rightarrow> bool" where
  "throws_toString_call v = (v = JUndefined \<or> v = JNull \<or> throws_ToString v)"

text \<open>
  The call \<^verbatim>\<open>v.toLocaleString()\<close>: a \<^verbatim>\<open>TypeError\<close> on \<^verbatim>\<open>null\<close> and \<^verbatim>\<open>undefined\<close>, and
  on an object with an own property \<^verbatim>\<open>toLocaleString\<close> (no function) or \<^verbatim>\<open>toString\<close>
  (which the inherited \<^verbatim>\<open>toLocaleString\<close> calls); an array calls the method of each
  element that is neither \<^verbatim>\<open>null\<close> nor \<^verbatim>\<open>undefined\<close>.
\<close>

fun throws_toLocaleString :: "json \<Rightarrow> bool" where
  "throws_toLocaleString JUndefined = True"
| "throws_toLocaleString JNull = True"
| "throws_toLocaleString (JObj ps) =
     (map_of ps ''toLocaleString'' \<noteq> None \<or> map_of ps ''toString'' \<noteq> None)"
| "throws_toLocaleString (JArr xs) =
     (\<exists>x \<in> set xs. x \<noteq> JNull \<and> x \<noteq> JUndefined \<and> throws_toLocaleString x)"
| "throws_toLocaleString v = False"

text \<open>The request, as far as the function reads it: the method and \<^verbatim>\<open>await req.json()\<close>.\<close>

record Request =
  req_method :: string
  req_json :: "exn + json"

text \<open>
  The body of a response: \<^verbatim>\<open>null\<close>, or the object given to \<^verbatim>\<open>JSON.stringify\<close>:
  \<^verbatim>\<open>{ error }\<close>, \<^verbatim>\<open>{ error: 'Internal server error', details: error.message }\<close> (kept
  as the exception caught), or \<^verbatim>\<open>{ success: true, batchId, status, message }\<close>, the
  message being a template over \<^verbatim>\<open>amount\<close> and \<^verbatim>\<open>email\<close> (kept as these two values).
\<close>

datatype body =
    Null_body
  | Error_json string
  | Internal_error_json exn
  | Success_json json json json json

record Response =
  status :: nat
  headers :: "(string \<times> string) list"
  body :: body

text \<open>\<^verbatim>\<open>new Response(body, init)\<close>: the status is 200 unless \<^verbatim>\<open>init.status\<close> is given.\<close>

record ResponseInit =
  init_status :: "nat option"
  init_headers :: "(string \<times> string) list"

definition new_Response :: "body \<Rightarrow> ResponseInit \<Rightarrow> Response" where
  "new_Response b init =
     \<lparr>status = (case init_status init of None \<Rightarrow> 200 | Some n \<Rightarrow> n),
      headers = init_headers init,
      body = b\<rparr>"

text \<open>The two header sets of the source.\<close>

definition cors_headers :: "(string \<times> string) list" where
  "cors_headers =
     [(''Access-Control-Allow-Origin'', ''*''),
      (''Access-Control-Allow-Methods'', ''POST, OPTIONS''),
      (''Access-Control-Allow-Headers'', ''Content-Type, Authorization'')]"

definition json_headers :: "(string \<times> string) list" where
  "json_headers =
     [(''Content-Type'', ''application/json''),
      (''Access-Control-Allow-Origin'', ''*'')]"

text \<open>
  The calls of the gateway, by what the function puts into them: the token request
  (\<^verbatim>\<open>POST /v1/oauth2/token\<close>, basic authorization from the client id and secret) and
  the payout request (\<^verbatim>\<open>POST /v1/payments/payouts\<close>, bearer authorization from
  \<^verbatim>\<open>tokenData.access_token\<close>, and \<^verbatim>\<open>payoutData\<close> built from \<^verbatim>\<open>email\<close>, \<^verbatim>\<open>amount\<close>,
  \<^verbatim>\<open>coins\<close> and \<^verbatim>\<open>userId\<close>).
\<close>

datatype fetch_call =
    Token_call string string
  | Payout_call json json json json json

text \<open>
  What \<^verbatim>\<open>fetch\<close> resolves to: the status, \<^verbatim>\<open>text()\<close> and \<^verbatim>\<open>json()\<close> of the response.
  The text of a response that arrived can be read; parsing it may throw.
\<close>

record fetched =
  f_status :: nat
  f_text :: string
  f_json :: "exn + json"

text \<open>\<^verbatim>\<open>response.ok\<close>: a status from 200 to 299.\<close>

definition ok :: "fetched \<Rightarrow> bool" where
  "ok r = (200 \<le> f_status r \<and> f_status r \<le> 299)"

text \<open>
  The surroundings of the function: the two secrets of \<^verbatim>\<open>Deno.env.get\<close>, \<^verbatim>\<open>fetch\<close>
  (which may reject), and the string that the conversion gives for a value that is
  not a string, where it does not throw (\<^verbatim>\<open>emailRegex.test\<close> matches that string).
\<close>

record Deno =
  PAYPAL_CLIENT_ID :: "string option"
  PAYPAL_CLIENT_SECRET :: "string option"
  fetch :: "fetch_call \<Rightarrow> exn + fetched"
  ToString :: "json \<Rightarrow> string"

definition test_subject :: "Deno \<Rightarrow> json \<Rightarrow> string" where
  "test_subject env v = (case v of JStr s \<Rightarrow> s | _ \<Rightarrow> ToString env v)"

text \<open>
  The two secrets, if \<^verbatim>\<open>!clientId || !clientSecret\<close> is false: both are set and
  neither is empty.
\<close>

definition credentials :: "Deno \<Rightarrow> (string \<times> string) option" where
  "credentials env =
     (case PAYPAL_CLIENT_ID env of
        None \<Rightarrow> None
      | Some clientId \<Rightarrow>
          (case PAYPAL_CLIENT_SECRET env of
             None \<Rightarrow> None
           | Some clientSecret \<Rightarrow>
               if clientId = [] \<or> clientSecret = [] then None
               else Some (clientId, clientSecret)))"

text \<open>
  The body of the \<^verbatim>\<open>try\<close>: the response it returns or the exception it throws,
  and the calls of the gateway it has made, in order. Between the two calls the
  source builds \<^verbatim>\<open>payoutData\<close>, converting \<^verbatim>\<open>userId\<close> (\<^verbatim>\<open>${userId}\<close>), \<^verbatim>\<open>coins\<close>
  (\<^verbatim>\<open>coins.toLocaleString()\<close>) and \<^verbatim>\<open>amount\<close> (\<^verbatim>\<open>${amount}\<close>, \<^verbatim>\<open>amount.toString()\<close>), and
  then the header \<^verbatim>\<open>Bearer ${tokenData.access_token}\<close>; each conversion may throw.
  The conversions of \<^verbatim>\<open>amount\<close> and \<^verbatim>\<open>email\<close> in the message of the last response were
  made before and do not throw there.
\<close>

definition serve_try :: "Deno \<Rightarrow> Request \<Rightarrow> (exn + Response) \<times> fetch_call list" where
  "serve_try env req =
     (case req_json req of
        Inl x \<Rightarrow> (Inl x, [])
      | Inr b \<Rightarrow>
     (case get_prop b ''email'' of
        Inl x \<Rightarrow> (Inl x, [])
      | Inr email \<Rightarrow>
     (case get_prop b ''amount'' of
        Inl x \<Rightarrow> (Inl x, [])
      | Inr amount \<Rightarrow>
     (case get_prop b ''coins'' of
        Inl x \<Rightarrow> (Inl x, [])
      | Inr coins \<Rightarrow>
     (case get_prop b ''userId'' of
        Inl x \<Rightarrow> (Inl x, [])
      | Inr userId \<Rightarrow>
     if \<not> truthy email \<or> \<not> truthy amount \<or> \<not> truthy coins \<or> \<not> truthy userId then
       (Inr (new_Response (Error_json ''Missing required fields'')
               \<lparr>init_status = Some 400, init_headers = json_headers\<rparr>), [])
     else if throws_ToString email then (Inl TypeError, [])
     else if \<not> emailRegex_test (test_subject env email) then
       (Inr (new_Response (Error_json ''Invalid email format'')
               \<lparr>init_status = Some 400, init_headers = json_headers\<rparr>), [])
     else
     (case credentials env of
        None \<Rightarrow>
          (Inr (new_Response (Error_json ''PayPal credentials not configured'')
                  \<lparr>init_status = Some 500, init_headers = json_headers\<rparr>), [])
      | Some (clientId, clientSecret) \<Rightarrow>
       let token_call = Token_call clientId clientSecret in
     (case fetch env token_call of
        Inl x \<Rightarrow> (Inl x, [token_call])
      | Inr tokenResponse \<Rightarrow>
     if \<not> ok tokenResponse then
       (Inr (new_Response (Error_json ''Failed to authenticate with PayPal'')
               \<lparr>init_status = Some 500, init_headers = json_headers\<rparr>), [token_call])
     else
     (case f_json tokenResponse of
        Inl x \<Rightarrow> (Inl x, [token_call])
      | Inr tokenData \<Rightarrow>
     if throws_ToString userId \<or> throws_toLocaleString coins \<or> throws_ToString amount
        \<or> throws_toString_call amount
     then (Inl TypeError, [token_call])
     else
     (case get_prop tokenData ''access_token'' of
        Inl x \<Rightarrow> (Inl x, [token_call])
      | Inr access_token \<Rightarrow>
     if throws_ToString access_token then (Inl TypeError, [token_call])
     else
       let payout_call = Payout_call access_token email amount coins userId in
     (case fetch env payout_call of
        Inl x \<Rightarrow> (Inl x, [token_call, payout_call])
      | Inr payoutResponse \<Rightarrow>
     if \<not> ok payoutResponse then
       (Inr (new_Response (Error_json ''Failed to process payout'')
               \<lparr>init_status = Some 500, init_headers = json_headers\<rparr>),
        [token_call, payout_call])
     else
     (case f_json payoutResponse of
        Inl x \<Rightarrow> (Inl x, [token_call, payout_call])
      | Inr payoutResult \<Rightarrow>
     (case get_prop payoutResult ''batch_header'' of
        Inl x \<Rightarrow> (Inl x, [token_call, payout_call])
      | Inr batch_header \<Rightarrow>
     (case get_prop batch_header ''payout_batch_id'' of
        Inl x \<Rightarrow> (Inl x, [token_call, payout_call])
      | Inr payout_batch_id \<Rightarrow>
     (case get_prop batch_header ''batch_status'' of
        Inl x \<Rightarrow> (Inl x, [token_call, payout_call])
      | Inr batch_status \<Rightarrow>
       (Inr (new_Response (Success_json payout_batch_id batch_status amount email)
               \<lparr>init_status = None, init_headers = json_headers\<rparr>),
        [token_call, payout_call])))))))))))))))"

text \<open>
  The handler given to \<^verbatim>\<open>serve\<close>: the answer to \<^verbatim>\<open>OPTIONS\<close>, the refusal of every
  method but \<^verbatim>\<open>POST\<close>, and the \<^verbatim>\<open>try\<close> with its \<^verbatim>\<open>catch\<close>.
\<close>

definition serve :: "Deno \<Rightarrow> Request \<Rightarrow> Response \<times> fetch_call list" where
  "serve env req =
     (if req_method req = ''OPTIONS'' then
        (new_Response Null_body \<lparr>init_status = None, init_headers = cors_headers\<rparr>, [])
      else if req_method req \<noteq> ''POST'' then
        (new_Response (Error_json ''Method not allowed'')
           \<lparr>init_status = Some 405, init_headers = json_headers\<rparr>, [])
      else
        (case serve_try env req of
           (Inr response, calls) \<Rightarrow> (response, calls)
         | (Inl error, calls) \<Rightarrow>
             (new_Response (Internal_error_json error)
                \<lparr>init_status = Some 500, init_headers = json_headers\<rparr>, calls)))"

text \<open>The guard of \<^verbatim>\<open>updateCoins\<close> and \<^verbatim>\<open>updateWithdrawal\<close> lets the call through.\<close>

definition ready :: "App \<Rightarrow> bool" where
  "ready s = (case user s of None \<Rightarrow> False | Some uid \<Rightarrow> uid \<noteq> [] \<and> userStats s \<noteq> None)"

subsection \<open>Scenarios\<close>

text \<open>
  The inputs of the end-to-end scenarios: an outside where every call resolves, a
  signed-in user whose one record holds a given balance and amount withdrawn, and
  the confirmation dialog open on a tier with an address typed in.
\<close>

definition all_resolve :: io where
  "all_resolve =
     \<lparr>list_result = Resolves, create_result = Resolves, update_result = Resolves,
      store_id = ''s1'', Date_now = ''1700000000000'',
      createdAt_now = ''2023-11-14T22:13:20.000Z'',
      updatedAt_now = ''2023-11-14T22:13:20.000Z''\<rparr>"

definition stats_of :: "int \<Rightarrow> rat \<Rightarrow> UserStats" where
  "stats_of b w =
     \<lparr>us_id = ''s1'', us_userId = ''u1'', totalCoins = b, totalWithdrawn = w,
      us_createdAt = ''2023-11-14T00:00:00.000Z'', us_updatedAt = ''2023-11-14T00:00:00.000Z''\<rparr>"

definition player :: "int \<Rightarrow> rat \<Rightarrow> App" where
  "player b w =
     \<lparr>user = Some ''u1'', userStats = Some (stats_of b w), db_userStats = [stats_of b w],
      db_withdrawals = [], simulated_payouts = []\<rparr>"

definition dialog :: "RedeemTier \<Rightarrow> string \<Rightarrow> RedeemCoins" where
  "dialog t email =
     \<lparr>selectedTier = Some t, paypalEmail = email, isProcessing = False, isDialogOpen = True\<rparr>"


text \<open>
  For the payout function: a gateway whose two end points answer with given
  responses, responses of the kinds the gateway gives, and a \<^verbatim>\<open>POST\<close> request with
  the four fields.
\<close>

definition response_of :: "nat \<Rightarrow> string \<Rightarrow> json \<Rightarrow> fetched" where
  "response_of code text' value' = \<lparr>f_status = code, f_text = text', f_json = Inr value'\<rparr>"

definition gateway :: "fetched \<Rightarrow> fetched \<Rightarrow> Deno" where
  "gateway tokenResponse payoutResponse =
     \<lparr>PAYPAL_CLIENT_ID = Some ''client-id'',
      PAYPAL_CLIENT_SECRET = Some ''client-secret'',
      fetch = (\<lambda>c. case c of
                      Token_call i k \<Rightarrow> Inr tokenResponse
                    | Payout_call t e a n u \<Rightarrow> Inr payoutResponse),
      ToString = (\<lambda>v. ''[object Object]'')\<rparr>"

definition token_granted :: fetched where
  "token_granted =
     response_of 200 ''{\"access_token\":\"A21AA\"}''
       (JObj [(''access_token'', JStr ''A21AA''), (''token_type'', JStr ''Bearer''),
              (''expires_in'', JNum 32400)])"

definition token_refused :: fetched where
  "token_refused =
     response_of 401 ''{\"error\":\"invalid_client\"}''
       (JObj [(''error'', JStr ''invalid_client'')])"

definition payout_created :: fetched where
  "payout_created =
     response_of 201 ''{\"batch_header\":{}}''
       (JObj [(''batch_header'',
               JObj [(''payout_batch_id'', JStr ''5UXD2E8A7EBQJ''),
                     (''batch_status'', JStr ''PENDING'')])])"

definition payout_refused :: fetched where
  "payout_refused =
     response_of 422 ''{\"name\":\"INSUFFICIENT_FUNDS\"}''
       (JObj [(''name'', JStr ''INSUFFICIENT_FUNDS'')])"

definition post :: "json \<Rightarrow> json \<Rightarrow> json \<Rightarrow> json \<Rightarrow> Request" where
  "post email amount coins userId =
     \<lparr>req_method = ''POST'',
      req_json = Inr (JObj [(''email'', email), (''amount'', amount), (''coins'', coins),
                            (''userId'', userId)])\<rparr>"


text \<open>A completed withdrawal of the first tier by a given user at a given time.\<close>

definition withdrawal_at :: "string \<Rightarrow> string \<Rightarrow> Withdrawal" where
  "withdrawal_at uid t =
     \<lparr>wd_userId = uid, wd_amount = 1, coinsSpent = 5000, wd_paypalEmail = ''a@b.com'',
      wd_status = ''completed'', batchId = ''DEMO_1700000000000'', wd_createdAt = t\<rparr>"


section \<open>Properties\<close>

subsection \<open>Rounding to a double\<close>

text \<open>
  Rounding to the nearest integer does not pass an integer and errs by at most a
  half; the exponent is the one of the binary representation.
\<close>

lemma round_half_even_cases:
  "round_half_even z = \<lfloor>z\<rfloor> \<or> (round_half_even z = \<lfloor>z\<rfloor> + 1 \<and> 1 / 2 \<le> z - of_int \<lfloor>z\<rfloor>)"
  by (auto simp: round_half_even_def Let_def)

lemma round_half_even_ge: "of_int m \<le> z \<Longrightarrow> m \<le> round_half_even z"
proof -
  assume "of_int m \<le> z"
  then have "m \<le> \<lfloor>z\<rfloor>"
    by (simp add: le_floor_iff)
  with round_half_even_cases [of z] show ?thesis
    by linarith
qed

lemma round_half_even_le: "z \<le> of_int m \<Longrightarrow> round_half_even z \<le> m"
proof -
  assume le: "z \<le> of_int m"
  then have fl: "\<lfloor>z\<rfloor> \<le> m"
    by (simp add: floor_le_iff)
  from round_half_even_cases [of z] show ?thesis
  proof
    assume "round_half_even z = \<lfloor>z\<rfloor>"
    with fl show ?thesis by simp
  next
    assume up: "round_half_even z = \<lfloor>z\<rfloor> + 1 \<and> 1 / 2 \<le> z - of_int \<lfloor>z\<rfloor>"
    then have "of_int \<lfloor>z\<rfloor> < z"
      by linarith
    with le have "of_int \<lfloor>z\<rfloor> < (of_int m :: rat)"
      by linarith
    then have "\<lfloor>z\<rfloor> < m"
      by simp
    with up show ?thesis by simp
  qed
qed

lemma round_half_even_error: "\<bar>of_int (round_half_even z) - z\<bar> \<le> 1 / 2"
proof -
  have "of_int \<lfloor>z\<rfloor> \<le> z" "z < of_int \<lfloor>z\<rfloor> + 1"
    by linarith+
  then show ?thesis
    by (auto simp: round_half_even_def Let_def)
qed

lemma exponent_bounds:
  assumes "x \<noteq> 0"
  shows "2 powi exponent x \<le> \<bar>x\<bar>" and "\<bar>x\<bar> < 2 powi (exponent x + 1)"
proof -
  obtain p q where pq: "quotient_of \<bar>x\<bar> = (p, q)"
    by (cases "quotient_of \<bar>x\<bar>")
  then have q: "0 < q" and x: "\<bar>x\<bar> = of_int p / of_int q"
    by (simp_all add: quotient_of_denom_pos quotient_of_div)
  from assms have "0 < \<bar>x\<bar>"
    by simp
  with x q have p: "0 < p"
    by (simp add: zero_less_divide_iff)
  let ?bp = "bitlen p" and ?bq = "bitlen q"
  from bitlen_bounds [OF p] bitlen_bounds [OF q]
  have ip: "2 ^ nat (?bp - 1) \<le> p" "p < 2 ^ nat ?bp" and iq: "2 ^ nat (?bq - 1) \<le> q" "q < 2 ^ nat ?bq"
    by simp_all
  have pos: "1 \<le> ?bp" "1 \<le> ?bq"
    using p q by (simp_all add: bitlen_alt_def)
  have rp: "2 powi (?bp - 1) \<le> (of_int p :: rat)" "(of_int p :: rat) < 2 powi ?bp"
  proof -
    from ip(1) have "(of_int (2 ^ nat (?bp - 1)) :: rat) \<le> of_int p"
      by (simp only: of_int_le_iff)
    with pos show "2 powi (?bp - 1) \<le> (of_int p :: rat)"
      by (simp add: power_int_def)
    from ip(2) have "(of_int p :: rat) < of_int (2 ^ nat ?bp)"
      by (simp only: of_int_less_iff)
    with pos show "(of_int p :: rat) < 2 powi ?bp"
      by (simp add: power_int_def)
  qed
  have rq: "2 powi (?bq - 1) \<le> (of_int q :: rat)" "(of_int q :: rat) < 2 powi ?bq"
  proof -
    from iq(1) have "(of_int (2 ^ nat (?bq - 1)) :: rat) \<le> of_int q"
      by (simp only: of_int_le_iff)
    with pos show "2 powi (?bq - 1) \<le> (of_int q :: rat)"
      by (simp add: power_int_def)
    from iq(2) have "(of_int q :: rat) < of_int (2 ^ nat ?bq)"
      by (simp only: of_int_less_iff)
    with pos show "(of_int q :: rat) < 2 powi ?bq"
      by (simp add: power_int_def)
  qed
  have qpos: "0 < (of_int q :: rat)" and ppos: "0 < (of_int p :: rat)"
    using p q by simp_all
  have low: "2 powi (?bp - ?bq - 1) \<le> \<bar>x\<bar>"
  proof -
    have "(2 powi (?bp - 1 - ?bq) :: rat) = 2 powi (?bp - 1) / 2 powi ?bq"
      by (rule power_int_diff) simp
    moreover have "?bp - 1 - ?bq = ?bp - ?bq - 1"
      by simp
    ultimately have "2 powi (?bp - ?bq - 1) = (2 powi (?bp - 1) :: rat) / 2 powi ?bq"
      by simp
    also have "\<dots> \<le> of_int p / 2 powi ?bq"
      using rp(1) by (simp add: divide_right_mono)
    also have "\<dots> \<le> of_int p / of_int q"
      using rq(2) qpos ppos by (simp add: frac_le)
    finally show ?thesis
      by (simp add: x)
  qed
  have high: "\<bar>x\<bar> < 2 powi (?bp - ?bq + 1)"
  proof -
    have "of_int p / of_int q < (2 powi ?bp :: rat) / of_int q"
      using rp(2) qpos by (simp add: divide_strict_right_mono)
    also have "\<dots> \<le> 2 powi ?bp / 2 powi (?bq - 1)"
      using rq(1) qpos by (intro divide_left_mono) (simp_all add: zero_less_mult_iff)
    also have "\<dots> = 2 powi (?bp - (?bq - 1))"
      by (rule power_int_diff [symmetric]) simp
    also have "?bp - (?bq - 1) = ?bp - ?bq + 1"
      by simp
    finally show ?thesis
      by (simp add: x)
  qed
  from pq low show "2 powi exponent x \<le> \<bar>x\<bar>"
    by (simp add: exponent_def Let_def)
  from pq high show "\<bar>x\<bar> < 2 powi (exponent x + 1)"
    by (auto simp: exponent_def Let_def not_le)
qed

lemma exponent_eqI:
  assumes "2 powi e \<le> \<bar>x\<bar>" and "\<bar>x\<bar> < 2 powi (e + 1)"
  shows "exponent x = e"
proof -
  have "(0 :: rat) < 2 powi e"
    by simp
  with assms(1) have "0 < \<bar>x\<bar>"
    by linarith
  then have nz: "x \<noteq> 0"
    by simp
  note b = exponent_bounds [OF nz]
  have "\<not> e + 1 \<le> exponent x"
  proof
    assume "e + 1 \<le> exponent x"
    then have "(2 powi (e + 1) :: rat) \<le> 2 powi exponent x"
      by (intro power_int_increasing) simp_all
    with b(1) assms(2) show False by linarith
  qed
  moreover have "\<not> exponent x + 1 \<le> e"
  proof
    assume "exponent x + 1 \<le> e"
    then have "(2 powi (exponent x + 1) :: rat) \<le> 2 powi e"
      by (intro power_int_increasing) simp_all
    with b(2) assms(1) show False by linarith
  qed
  ultimately show ?thesis by linarith
qed


lemma binary64_positive:
  assumes "0 < x" and "k = max (exponent x) (- 1022) - 52"
    and "n = round_half_even (x / 2 powi k)"
  shows "binary64 x =
    (if (2 powi 1024 :: rat) \<le> of_int n * 2 powi k then Infinity
     else Finite (of_int n * 2 powi k))"
  using assms by (simp add: binary64_def Let_def)

lemma binary64_nonpositive:
  assumes "x \<le> 0"
  shows "binary64 x = NegInfinity \<or> (\<exists>y. binary64 x = Finite y \<and> y \<le> 0)"
proof (cases "x = 0")
  case True
  then show ?thesis by (simp add: binary64_def)
next
  case False
  with assms have neg: "x < 0" by simp
  define k where "k = max (exponent x) (- 1022) - 52"
  define n where "n = round_half_even (\<bar>x\<bar> / 2 powi k)"
  have "(of_int 0 :: rat) \<le> \<bar>x\<bar> / 2 powi k"
    by simp
  then have "0 \<le> n"
    unfolding n_def by (rule round_half_even_ge)
  then have "0 \<le> (of_int n :: rat) * 2 powi k"
    by simp
  with neg show ?thesis
    by (simp add: binary64_def Let_def k_def n_def)
qed

lemma power_int_nonpositive_scale:
  assumes "k \<le> 0"
  shows "(2 powi k :: rat) * 2 ^ nat (- k) = 1"
proof -
  have "(2 powi k :: rat) * 2 powi (- k) = 2 powi (k + - k)"
    by (rule power_int_add [symmetric]) simp
  moreover from assms have "(2 powi (- k) :: rat) = 2 ^ nat (- k)"
    by (simp add: power_int_def)
  ultimately show ?thesis by simp
qed

lemma small_exponent:
  assumes "0 < x" and "x \<le> of_int m" and "m < 2 ^ 53"
  shows "max (exponent x) (- 1022) - 52 \<le> 0"
proof -
  from assms(1) have nz: "x \<noteq> 0" by simp
  have "\<not> 53 \<le> exponent x"
  proof
    assume "53 \<le> exponent x"
    then have "(2 powi 53 :: rat) \<le> 2 powi exponent x"
      by (intro power_int_increasing) simp_all
    also from exponent_bounds(1) [OF nz] assms(1) have "\<dots> \<le> x"
      by simp
    also note assms(2)
    finally have "(of_int (2 ^ 53) :: rat) \<le> of_int m"
      by simp
    then have "(2 ^ 53 :: int) \<le> m"
      by (simp only: of_int_le_iff)
    with assms(3) show False by simp
  qed
  then show ?thesis by simp
qed

lemma binary64_le_int:
  assumes m: "0 < m" "m < 2 ^ 53" and le: "x \<le> of_int m"
  shows "binary64 x = NegInfinity \<or> (\<exists>y. binary64 x = Finite y \<and> y \<le> of_int m)"
proof (cases "0 < x")
  case False
  then have "x \<le> 0" by simp
  from binary64_nonpositive [OF this] m(1) show ?thesis
    by (auto intro: order_trans [where y = 0])
next
  case True
  define k where "k = max (exponent x) (- 1022) - 52"
  define n where "n = round_half_even (x / 2 powi k)"
  have k: "k \<le> 0"
    unfolding k_def using True le m(2) by (rule small_exponent)
  note scale = power_int_nonpositive_scale [OF k]
  have pos: "(0 :: rat) < 2 powi k"
    by simp
  have "x / 2 powi k = x * 2 ^ nat (- k)"
    using scale pos by (simp add: field_simps)
  also have "\<dots> \<le> of_int m * 2 ^ nat (- k)"
    using le by (simp add: mult_right_mono)
  also have "\<dots> = of_int (m * 2 ^ nat (- k))"
    by simp
  finally have "n \<le> m * 2 ^ nat (- k)"
    unfolding n_def by (rule round_half_even_le)
  then have "(of_int n :: rat) \<le> of_int (m * 2 ^ nat (- k))"
    by (simp only: of_int_le_iff)
  then have "(of_int n :: rat) * 2 powi k \<le> of_int (m * 2 ^ nat (- k)) * 2 powi k"
    using pos by (simp add: mult_right_mono)
  also have "\<dots> = of_int m * (2 powi k * 2 ^ nat (- k))"
    by simp
  also have "\<dots> = of_int m"
    by (simp only: scale mult_1_right)
  finally have y: "(of_int n :: rat) * 2 powi k \<le> of_int m" .
  from m(2) have "(of_int m :: rat) < of_int (2 ^ 53)"
    by (simp only: of_int_less_iff)
  also have "\<dots> < 2 powi 1024"
    by simp
  finally have "\<not> (2 powi 1024 :: rat) \<le> of_int n * 2 powi k"
    using y by simp
  with y show ?thesis
    by (simp add: binary64_positive [OF True k_def n_def])
qed

lemma binary64_ge_int:
  assumes m: "0 < m" "m < 2 ^ 53" and ge: "of_int m \<le> x"
  shows "binary64 x = Infinity \<or> (\<exists>y. binary64 x = Finite y \<and> of_int m \<le> y)"
proof -
  from m(1) ge have x: "0 < x"
    by (smt (verit) of_int_0_less_iff less_le_trans)
  then have nz: "x \<noteq> 0" by simp
  define k where "k = max (exponent x) (- 1022) - 52"
  define n where "n = round_half_even (x / 2 powi k)"
  have pos: "(0 :: rat) < 2 powi k"
    by simp
  have y: "of_int m \<le> (of_int n :: rat) * 2 powi k"
  proof (cases "k \<le> 0")
    case True
    note scale = power_int_nonpositive_scale [OF True]
    have "(of_int (m * 2 ^ nat (- k)) :: rat) = of_int m * 2 ^ nat (- k)"
      by simp
    also have "\<dots> \<le> x * 2 ^ nat (- k)"
      using ge by (simp add: mult_right_mono)
    also have "\<dots> = x / 2 powi k"
      using scale pos by (simp add: field_simps)
    finally have "m * 2 ^ nat (- k) \<le> n"
      unfolding n_def by (rule round_half_even_ge)
    then have "(of_int (m * 2 ^ nat (- k)) :: rat) \<le> of_int n"
      by (simp only: of_int_le_iff)
    then have "of_int (m * 2 ^ nat (- k)) * 2 powi k \<le> (of_int n :: rat) * 2 powi k"
      using pos by (simp add: mult_right_mono)
    moreover have "(of_int (m * 2 ^ nat (- k)) :: rat) * 2 powi k = of_int m * (2 powi k * 2 ^ nat (- k))"
      by simp
    ultimately show ?thesis
      by (simp only: scale mult_1_right)
  next
    case False
    then have k1: "1 \<le> k" by simp
    then have e: "exponent x = k + 52"
      by (auto simp: k_def max_def split: if_splits)
    have "(of_int (2 ^ 52) :: rat) = 2 powi 52"
      by simp
    also have "\<dots> = 2 powi (exponent x - k)"
      by (simp add: e)
    also have "\<dots> = 2 powi exponent x / 2 powi k"
      by (rule power_int_diff) simp
    also have "\<dots> \<le> x / 2 powi k"
      using exponent_bounds(1) [OF nz] x pos by (simp add: divide_right_mono)
    finally have "2 ^ 52 \<le> n"
      unfolding n_def by (rule round_half_even_ge)
    then have "(of_int (2 ^ 52) :: rat) \<le> of_int n"
      by (simp only: of_int_le_iff)
    moreover from k1 have "(2 powi 1 :: rat) \<le> 2 powi k"
      by (intro power_int_increasing) simp_all
    ultimately have "(of_int (2 ^ 52) :: rat) * 2 powi 1 \<le> of_int n * 2 powi k"
      by (intro mult_mono) simp_all
    moreover from m(2) have "(of_int m :: rat) < of_int (2 ^ 53)"
      by (simp only: of_int_less_iff)
    ultimately show ?thesis
      by simp
  qed
  then show ?thesis
    by (simp add: binary64_positive [OF x k_def n_def])
qed

lemma binary64_int:
  assumes "0 < m" "m < 2 ^ 53"
  shows "binary64 (of_int m) = Finite (of_int m)"
  using binary64_le_int [OF assms order_refl] binary64_ge_int [OF assms order_refl]
  by auto

lemma binary64_error:
  assumes "0 < x" and "x < 2 powi j" and "- 1021 \<le> j" and "binary64 x = Finite y"
  shows "\<bar>y - x\<bar> \<le> 2 powi (j - 54)"
proof -
  from assms(1) have nz: "x \<noteq> 0" by simp
  define k where "k = max (exponent x) (- 1022) - 52"
  define n where "n = round_half_even (x / 2 powi k)"
  have pos: "(0 :: rat) < 2 powi k"
    by simp
  from assms(4) have y: "y = of_int n * 2 powi k"
    by (simp add: binary64_positive [OF assms(1) k_def n_def] split: if_splits)
  have "\<not> j \<le> exponent x"
  proof
    assume "j \<le> exponent x"
    then have "(2 powi j :: rat) \<le> 2 powi exponent x"
      by (intro power_int_increasing) simp_all
    with exponent_bounds(1) [OF nz] assms(1,2) show False
      by simp
  qed
  with assms(3) have "k \<le> j - 53"
    by (simp add: k_def)
  then have ulp: "(2 powi k :: rat) \<le> 2 powi (j - 53)"
    by (intro power_int_increasing) simp_all
  have "y - x = (of_int n - x / 2 powi k) * 2 powi k"
    using pos by (simp add: y field_simps)
  then have "\<bar>y - x\<bar> = \<bar>of_int n - x / 2 powi k\<bar> * 2 powi k"
    by (simp add: abs_mult)
  also have "\<dots> \<le> 1 / 2 * 2 powi k"
    unfolding n_def using round_half_even_error [of "x / 2 powi k"] pos
    by (intro mult_right_mono) simp_all
  also have "\<dots> \<le> 1 / 2 * 2 powi (j - 53)"
    using ulp by simp
  also have "\<dots> = 2 powi (j - 53 - 1)"
    by (subst power_int_diff [of 2 "j - 53" 1]) simp_all
  finally show ?thesis
    by (simp add: algebra_simps)
qed


subsection \<open>Affordability and progress\<close>

lemma binary64_nonnegative:
  assumes "0 \<le> x"
  shows "binary64 x = Infinity \<or> (\<exists>y. binary64 x = Finite y \<and> 0 \<le> y)"
proof (cases "x = 0")
  case True
  then show ?thesis by (simp add: binary64_def)
next
  case False
  with assms have x: "0 < x" by simp
  define k where "k = max (exponent x) (- 1022) - 52"
  define n where "n = round_half_even (x / 2 powi k)"
  from x have "(of_int 0 :: rat) \<le> x / 2 powi k"
    by simp
  then have "0 \<le> n"
    unfolding n_def by (rule round_half_even_ge)
  then have "0 \<le> (of_int n :: rat) * 2 powi k"
    by simp
  then show ?thesis
    by (simp add: binary64_positive [OF x k_def n_def])
qed

lemma binary64_100: "binary64 100 = Finite 100"
  using binary64_int [of 100] by simp

lemma cap_below: "x \<le> 100 \<Longrightarrow> Math_min (binary64 x) (Finite 100) = binary64 x"
  using binary64_le_int [of 100 x] by auto

lemma cap_above: "100 \<le> x \<Longrightarrow> Math_min (binary64 x) (Finite 100) = Finite 100"
  using binary64_ge_int [of 100 x] by auto

lemma progress_formula:
  "getProgressPercentage b c =
     (if c = 0 then (if b = 0 then NaN else if 0 < b then Finite 100 else NegInfinity)
      else case binary64 (of_int b / of_int c) of
             Finite q \<Rightarrow> binary64 (min q 1 * 100)
           | Infinity \<Rightarrow> Finite 100
           | NegInfinity \<Rightarrow> NegInfinity
           | NaN \<Rightarrow> NaN)"
proof (cases "c = 0")
  case True
  then show ?thesis
    by (simp add: getProgressPercentage_def js_div_def)
next
  case False
  show ?thesis
  proof (cases "binary64 (of_int b / of_int c)")
    case (Finite q)
    show ?thesis
    proof (cases "1 \<le> q")
      case True
      then have "100 \<le> q * 100" by simp
      from cap_above [OF this] True Finite False show ?thesis
        by (simp add: getProgressPercentage_def js_div_def binary64_100)
    next
      case False
      then have "q * 100 \<le> 100" by simp
      from cap_below [OF this] False Finite \<open>c \<noteq> 0\<close> show ?thesis
        by (simp add: getProgressPercentage_def js_div_def min_def)
    qed
  qed (use False in \<open>simp_all add: getProgressPercentage_def js_div_def\<close>)
qed

lemma progress_full:
  assumes "0 < c" and "c \<le> b"
  shows "getProgressPercentage b c = Finite 100"
proof -
  from assms have "(of_int 1 :: rat) \<le> of_int b / of_int c"
    by (simp add: le_divide_eq)
  from binary64_ge_int [OF _ _ this] assms(1) show ?thesis
    by (auto simp: progress_formula binary64_100)
qed

lemma progress_partial:
  assumes "0 \<le> b" and "b < c"
  shows "\<exists>p. getProgressPercentage b c = Finite p \<and> 0 \<le> p \<and> p \<le> 100
           \<and> \<bar>p - of_int b / of_int c * 100\<bar> \<le> 1 / 2 ^ 46"
proof -
  let ?x = "of_int b / of_int c :: rat"
  from assms have c: "c \<noteq> 0" and x: "0 \<le> ?x" "?x < 1"
    by (simp_all add: divide_less_eq)
  from x(2) have "?x \<le> of_int 1" by simp
  from binary64_le_int [OF _ _ this] binary64_nonnegative [OF x(1)]
  obtain q where q: "binary64 ?x = Finite q" "0 \<le> q" "q \<le> 1"
    by auto
  have eq: "\<bar>q - ?x\<bar> \<le> 2 powi (- 54)"
  proof (cases "?x = 0")
    case True
    have "binary64 0 = Finite 0"
      by (simp add: binary64_def)
    with q(1) have "q = 0"
      by (simp only: True jsnum.inject)
    then have "\<bar>q - ?x\<bar> = 0"
      by (simp only: True diff_self abs_zero)
    then show ?thesis by simp
  next
    case False
    with x(1) have "0 < ?x" by (rule le_neq_trans [OF _ not_sym])
    from binary64_error [OF this _ _ q(1), of 0] x(2) show ?thesis by simp
  qed
  from q have y: "0 \<le> q * 100" "q * 100 \<le> of_int 100"
    by simp_all
  from binary64_le_int [OF _ _ y(2)] binary64_nonnegative [OF y(1)]
  obtain p where p: "binary64 (q * 100) = Finite p" "0 \<le> p" "p \<le> 100"
    by auto
  have ep: "\<bar>p - q * 100\<bar> \<le> 2 powi (- 47)"
  proof (cases "q = 0")
    case True
    with p(1) show ?thesis by (simp add: binary64_def)
  next
    case False
    with q(2) have "0 < q * 100" by simp
    moreover from q(3) have "q * 100 < 2 powi 7" by simp
    ultimately show ?thesis
      using binary64_error [OF _ _ _ p(1), of 7] by simp
  qed
  from q(3) have "min q 1 = q" by simp
  with c q(1) p(1) have result: "getProgressPercentage b c = Finite p"
    by (simp add: progress_formula)
  have "p - ?x * 100 = (p - q * 100) + 100 * (q - ?x)"
    by (simp only: algebra_simps)
  then have "\<bar>p - ?x * 100\<bar> \<le> \<bar>p - q * 100\<bar> + \<bar>100 * (q - ?x)\<bar>"
    by (simp only: abs_triangle_ineq)
  also have "\<bar>100 * (q - ?x)\<bar> = 100 * \<bar>q - ?x\<bar>"
    by (simp only: abs_mult abs_numeral)
  finally have "\<bar>p - ?x * 100\<bar> \<le> \<bar>p - q * 100\<bar> + 100 * \<bar>q - ?x\<bar>" .
  also have "\<bar>p - q * 100\<bar> + 100 * \<bar>q - ?x\<bar> \<le> 2 powi (- 47) + 100 * 2 powi (- 54)"
    using ep eq by (intro add_mono mult_left_mono) simp_all
  also have "\<dots> \<le> 1 / 2 ^ 46"
    by simp
  finally show ?thesis
    using result p by blast
qed

text \<open>
  C6. For every balance \<open>b\<close> and tier coin cost \<open>c\<close>, \<^verbatim>\<open>canAfford\<close> returns exactly
  \<open>b \<ge> c\<close>. The progress percentage is the metric \<^verbatim>\<open>min(b / c, 1.0)\<close> as a percentage
  capped at 100: for \<open>c \<noteq> 0\<close> it is the double of \<open>min q 1 * 100\<close>, where \<open>q\<close> is the
  double of \<open>b / c\<close>; for \<open>c = 0\<close> it is \<^verbatim>\<open>NaN\<close>, 100 or \<^verbatim>\<open>-Infinity\<close> as \<open>b\<close> is
  zero, positive or negative. So it is exactly 100 when a positive cost is covered,
  and for a balance \<open>b \<ge> 0\<close> and a cost \<open>c > 0\<close> it is a number from 0 to 100 within
  \<open>1 / 2 ^ 46\<close> of \<open>min (b / c) 1 * 100\<close>, the two roundings apart. Both are functions of
  \<open>b\<close> and \<open>c\<close> alone.
\<close>

theorem C6_affordability_and_progress:
  "canAfford b c = (b \<ge> c)
   \<and> getProgressPercentage b c =
       (if c = 0 then (if b = 0 then NaN else if 0 < b then Finite 100 else NegInfinity)
        else case binary64 (of_int b / of_int c) of
               Finite q \<Rightarrow> binary64 (min q 1 * 100)
             | Infinity \<Rightarrow> Finite 100
             | NegInfinity \<Rightarrow> NegInfinity
             | NaN \<Rightarrow> NaN)
   \<and> (0 < c \<and> c \<le> b \<longrightarrow> getProgressPercentage b c = Finite 100)
   \<and> (0 \<le> b \<and> 0 < c \<longrightarrow>
        (\<exists>p. getProgressPercentage b c = Finite p \<and> 0 \<le> p \<and> p \<le> 100
           \<and> \<bar>p - min (of_int b / of_int c) 1 * 100\<bar> \<le> 1 / 2 ^ 46))"
proof (intro conjI impI)
  show "canAfford b c = (b \<ge> c)"
    by (simp add: canAfford_def)
  show "getProgressPercentage b c =
       (if c = 0 then (if b = 0 then NaN else if 0 < b then Finite 100 else NegInfinity)
        else case binary64 (of_int b / of_int c) of
               Finite q \<Rightarrow> binary64 (min q 1 * 100)
             | Infinity \<Rightarrow> Finite 100
             | NegInfinity \<Rightarrow> NegInfinity
             | NaN \<Rightarrow> NaN)"
    by (rule progress_formula)
  show "getProgressPercentage b c = Finite 100" if "0 < c \<and> c \<le> b"
    using that by (simp add: progress_full)
  show "\<exists>p. getProgressPercentage b c = Finite p \<and> 0 \<le> p \<and> p \<le> 100
           \<and> \<bar>p - min (of_int b / of_int c) 1 * 100\<bar> \<le> 1 / 2 ^ 46" if "0 \<le> b \<and> 0 < c"
  proof (cases "c \<le> b")
    case True
    with that have "getProgressPercentage b c = Finite 100" and "(1 :: rat) \<le> of_int b / of_int c"
      by (simp_all add: progress_full le_divide_eq)
    then show ?thesis
      by (simp add: min_def)
  next
    case False
    with that have "0 \<le> b" "b < c" and "of_int b / of_int c < (1 :: rat)"
      by (simp_all add: divide_less_eq)
    with progress_partial [of b c] show ?thesis
      by (simp add: min_def)
  qed
qed

text \<open>
  The doubles of \<open>7 / 5000\<close> and of a hundred times it, which prints as
  \<^verbatim>\<open>0.13999999999999999\<close>, and those of \<open>4 / 5\<close> and of a hundred times it.
\<close>

lemma double_7_5000: "binary64 (7 / 5000) = Finite (6456360425798343 / 4611686018427387904)"
  by code_simp

lemma double_7_50:
  "binary64 (161409010644958575 / 1152921504606846976) =
     Finite (5044031582654955 / 36028797018963968)"
  by code_simp


lemma double_4_5: "binary64 (4 / 5) = Finite (3602879701896397 / 4503599627370496)"
  by code_simp

lemma double_80: "binary64 (90071992547409925 / 1125899906842624) = Finite 80"
  by code_simp

text \<open>
  A covered tier, a tier four fifths covered, seven coins of 5,000 (where the
  percentage is not the exact 0.14), and a zero divisor.
\<close>

theorem C6_witness:
  "getProgressPercentage 10000 5000 = Finite 100
   \<and> getProgressPercentage 4000 5000 = Finite 80
   \<and> getProgressPercentage 7 5000 = Finite (5044031582654955 / 36028797018963968)
   \<and> \<bar>5044031582654955 / 36028797018963968 - 7 / 5000 * 100\<bar> \<le> (1 / 2 ^ 46 :: rat)
   \<and> getProgressPercentage 0 0 = NaN
   \<and> getProgressPercentage 100 0 = Finite 100"
proof -
  note c6 = C6_affordability_and_progress
  have full: "(0 :: int) < 5000 \<and> (5000 :: int) \<le> 10000"
    by simp
  with c6 [of 10000 5000] have "getProgressPercentage 10000 5000 = Finite 100"
    by blast
  moreover from c6 [of 4000 5000] have "getProgressPercentage 4000 5000 = Finite 80"
    by (simp add: double_4_5 double_80)
  moreover from c6 [of 7 5000]
  have seven: "getProgressPercentage 7 5000 = Finite (5044031582654955 / 36028797018963968)"
    by (simp add: double_7_5000 double_7_50)
  moreover have "(0 :: int) \<le> 7 \<and> (0 :: int) < 5000"
    by simp
  with c6 [of 7 5000] seven
  have "\<bar>5044031582654955 / 36028797018963968 - 7 / 5000 * 100\<bar> \<le> (1 / 2 ^ 46 :: rat)"
    by (auto simp: min_def)
  moreover from c6 [of 0 0] have "getProgressPercentage 0 0 = NaN"
    by simp
  moreover from c6 [of 100 0] have "getProgressPercentage 100 0 = Finite 100"
    by simp
  ultimately show ?thesis
    by blast
qed

text \<open>The table of tiers: positive costs, increasing in coins and in dollars.\<close>

lemma redeemTiers_increasing:
  "list_all (\<lambda>t. 0 < tier_coins t) redeemTiers
   \<and> sorted_wrt (\<lambda>t t'. tier_coins t < tier_coins t' \<and> tier_amount t < tier_amount t') redeemTiers"
  by (simp add: redeemTiers_def)

subsection \<open>Redemption\<close>

lemma App_coins_loaded: "userStats s = Some st \<Longrightarrow> App_coins s = totalCoins st"
  by (simp add: App_coins_def)

lemma updateWithdrawal_True:
  assumes "updateWithdrawal e amount n m s = (True, s')"
  shows "\<exists>uid st. user s = Some uid \<and> uid \<noteq> [] \<and> userStats s = Some st
           \<and> create_result e = Resolves \<and> update_result e = Resolves
           \<and> s' = s\<lparr>simulated_payouts := simulated_payouts s @ [2000],
                    db_withdrawals := db_withdrawals s @
                      [\<lparr>wd_userId = uid, wd_amount = amount, coinsSpent = n,
                        wd_paypalEmail = m, wd_status = ''completed'',
                        batchId = ''DEMO_'' @ Date_now e, wd_createdAt = createdAt_now e\<rparr>],
                    db_userStats := db_update (us_id st)
                       (\<lambda>r. r\<lparr>totalCoins := totalCoins st - n,
                              totalWithdrawn := totalWithdrawn st + amount,
                              us_updatedAt := updatedAt_now e\<rparr>) (db_userStats s),
                    userStats := Some (st\<lparr>totalCoins := totalCoins st - n,
                                         totalWithdrawn := totalWithdrawn st + amount\<rparr>)\<rparr>"
  using assms
  by (auto simp: updateWithdrawal_def db_create_def Let_def
      split: option.splits if_splits outcome.splits)

lemma handleRedeem_success:
  assumes "handleRedeem coins f c w = (c', w', toasts)"
    and "Withdrawal_Successful \<in> set toasts"
  shows "\<exists>t. selectedTier c = Some t \<and> js_trim (paypalEmail c) \<noteq> [] \<and> tier_coins t \<le> coins
           \<and> f (tier_amount t) (tier_coins t) (paypalEmail c) w = (Fulfilled True, w')"
  using assms
  by (auto simp: handleRedeem_def split: option.splits if_splits prod.splits promise.splits bool.splits)

text \<open>
  C1. A successful redemption of tier \<open>t\<close> by a user whose record holds balance \<open>b\<close>
  and cumulative amount withdrawn \<open>w\<close> (success being the toast of success, shown
  when \<^verbatim>\<open>onWithdrawal\<close> gave \<^verbatim>\<open>true\<close>) had \<open>b \<ge> t.coins\<close>, leaves the balance
  \<open>b - t.coins\<close> and the amount withdrawn \<open>w + t.amount\<close>, in the React state and in
  the store, and appends exactly one withdrawal record, with status \<^verbatim>\<open>completed\<close>,
  \<open>coinsSpent = t.coins\<close> and \<open>amount = t.amount\<close>.
\<close>

theorem C1_successful_redemption:
  assumes loaded: "userStats s = Some st"
    and tier: "selectedTier c = Some t"
    and result: "App_redeem e c s = (c', s', toasts)"
    and success: "Withdrawal_Successful \<in> set toasts"
  shows "tier_coins t \<le> totalCoins st
    \<and> userStats s' = Some (st\<lparr>totalCoins := totalCoins st - tier_coins t,
                               totalWithdrawn := totalWithdrawn st + tier_amount t\<rparr>)
    \<and> db_userStats s' =
        db_update (us_id st)
          (\<lambda>r. r\<lparr>totalCoins := totalCoins st - tier_coins t,
                 totalWithdrawn := totalWithdrawn st + tier_amount t,
                 us_updatedAt := updatedAt_now e\<rparr>) (db_userStats s)
    \<and> (\<exists>r. db_withdrawals s' = db_withdrawals s @ [r]
           \<and> wd_status r = ''completed''
           \<and> coinsSpent r = tier_coins t
           \<and> wd_amount r = tier_amount t
           \<and> wd_paypalEmail r = paypalEmail c)"
proof -
  from handleRedeem_success [OF result [unfolded App_redeem_def] success] tier
  have afford: "tier_coins t \<le> App_coins s"
    and call: "(case updateWithdrawal e (tier_amount t) (tier_coins t) (paypalEmail c) s of
                  (success, w') \<Rightarrow> (Fulfilled success, w')) = (Fulfilled True, s')"
    by auto
  from call have "updateWithdrawal e (tier_amount t) (tier_coins t) (paypalEmail c) s = (True, s')"
    by (auto split: prod.splits)
  from updateWithdrawal_True [OF this] loaded afford show ?thesis
    by (auto simp: App_coins_loaded)
qed


text \<open>
  The scenario of the specification: balance 10,000, tier 10,000 coins for 5 dollars,
  address \<^verbatim>\<open>a@b.com\<close>; the balance becomes 0, the amount withdrawn 5, and there is one
  record.
\<close>

theorem C1_witness:
  "userStats (fst (snd (App_redeem all_resolve
       (dialog \<lparr>tier_coins = 10000, tier_amount = 5, label = ''$5'', popular = Some True\<rparr> ''a@b.com'')
       (player 10000 0)))) = Some (stats_of 0 5)
   \<and> map (\<lambda>r. (wd_status r, coinsSpent r, wd_amount r))
        (db_withdrawals (fst (snd (App_redeem all_resolve
          (dialog \<lparr>tier_coins = 10000, tier_amount = 5, label = ''$5'', popular = Some True\<rparr> ''a@b.com'')
          (player 10000 0))))) = [(''completed'', 10000, 5)]"
proof -
  let ?t = "\<lparr>tier_coins = 10000, tier_amount = 5, label = ''$5'', popular = Some True\<rparr>"
  let ?r = "App_redeem all_resolve (dialog ?t ''a@b.com'') (player 10000 0)"
  have trim: "js_trim ''a@b.com'' \<noteq> []"
    by (simp add: js_trim_def js_space_def)
  have run: "?r = (fst ?r, fst (snd ?r), snd (snd ?r))"
    by simp
  have loaded: "userStats (player 10000 0) = Some (stats_of 10000 0)"
    by (simp add: player_def)
  have tier: "selectedTier (dialog ?t ''a@b.com'') = Some ?t"
    by (simp add: dialog_def)
  have success: "Withdrawal_Successful \<in> set (snd (snd ?r))"
    using trim
    by (simp add: App_redeem_def handleRedeem_def updateWithdrawal_def App_coins_def
        dialog_def player_def stats_of_def all_resolve_def Let_def)
  have empty: "db_withdrawals (player 10000 0) = []"
    by (simp add: player_def)
  from C1_successful_redemption [OF loaded tier run success]
  have stats: "userStats (fst (snd ?r)) =
      Some (stats_of 10000 0\<lparr>totalCoins := totalCoins (stats_of 10000 0) - tier_coins ?t,
              totalWithdrawn := totalWithdrawn (stats_of 10000 0) + tier_amount ?t\<rparr>)"
    and "\<exists>r. db_withdrawals (fst (snd ?r)) = db_withdrawals (player 10000 0) @ [r]
           \<and> wd_status r = ''completed'' \<and> coinsSpent r = tier_coins ?t
           \<and> wd_amount r = tier_amount ?t"
    by blast+
  then obtain r where "db_withdrawals (fst (snd ?r)) = [r]"
    and "wd_status r = ''completed''" and "coinsSpent r = 10000" and "wd_amount r = 5"
    using empty by auto
  with stats show ?thesis
    by (simp add: stats_of_def)
qed


text \<open>
  C2 as stated fails: when the creation of the record resolves and the update of the
  user's record rejects, \<^verbatim>\<open>updateWithdrawal\<close> returns \<^verbatim>\<open>false\<close> and the record, created
  before, is in the store.
\<close>

theorem C2_counterexample:
  "fst (updateWithdrawal (all_resolve\<lparr>update_result := Rejects\<rparr>) 5 10000 ''a@b.com''
          (player 10000 0)) = False
   \<and> db_withdrawals (player 10000 0) = []
   \<and> db_withdrawals (snd (updateWithdrawal (all_resolve\<lparr>update_result := Rejects\<rparr>) 5 10000
          ''a@b.com'' (player 10000 0)))
      = [\<lparr>wd_userId = ''u1'', wd_amount = 5, coinsSpent = 10000, wd_paypalEmail = ''a@b.com'',
          wd_status = ''completed'', batchId = ''DEMO_1700000000000'',
          wd_createdAt = ''2023-11-14T22:13:20.000Z''\<rparr>]"
  by (simp add: updateWithdrawal_def all_resolve_def player_def stats_of_def db_create_def Let_def)

text \<open>
  C2, amended. Whenever \<^verbatim>\<open>updateWithdrawal\<close> returns \<^verbatim>\<open>false\<close>, the balance and the
  cumulative amount withdrawn are as before, in the React state and in the store.
  The table of withdrawals is as before if the guard stopped the call or the
  creation of the record rejected; otherwise the update of the user's record
  rejected and the one record created before it, of status \<^verbatim>\<open>completed\<close>, stays.
\<close>

theorem C2_failed_redemption:
  assumes "updateWithdrawal e amount n m s = (False, s')"
  shows "userStats s' = userStats s
    \<and> db_userStats s' = db_userStats s
    \<and> (if ready s \<and> create_result e = Resolves
        then update_result e = Rejects
           \<and> (\<exists>r. db_withdrawals s' = db_withdrawals s @ [r]
                 \<and> wd_status r = ''completed'' \<and> coinsSpent r = n \<and> wd_amount r = amount)
        else db_withdrawals s' = db_withdrawals s)"
  using assms
  by (auto simp: updateWithdrawal_def ready_def db_create_def Let_def
      split: option.splits if_splits outcome.splits)

theorem C2_witness:
  "userStats (snd (updateWithdrawal (all_resolve\<lparr>create_result := Rejects\<rparr>) 5 10000 ''a@b.com''
       (player 10000 0))) = Some (stats_of 10000 0)
   \<and> db_userStats (snd (updateWithdrawal (all_resolve\<lparr>create_result := Rejects\<rparr>) 5 10000
       ''a@b.com'' (player 10000 0))) = [stats_of 10000 0]
   \<and> db_withdrawals (snd (updateWithdrawal (all_resolve\<lparr>create_result := Rejects\<rparr>) 5 10000
       ''a@b.com'' (player 10000 0))) = []"
proof -
  let ?e = "all_resolve\<lparr>create_result := Rejects\<rparr>"
  let ?r = "updateWithdrawal ?e 5 10000 ''a@b.com'' (player 10000 0)"
  have "fst ?r = False"
    by (simp add: updateWithdrawal_def all_resolve_def player_def Let_def)
  then have failed: "?r = (False, snd ?r)"
    by (simp add: prod_eq_iff)
  have rejects: "create_result ?e = Rejects"
    by (simp add: all_resolve_def)
  from C2_failed_redemption [OF failed] rejects show ?thesis
    by (simp add: player_def)
qed

text \<open>
  C4. When the balance the component is given (\<^verbatim>\<open>userStats.totalCoins\<close>, or 0 while no
  record is loaded) is below the cost of the selected tier, confirming the
  redemption returns at one of the two guards: the state of the component and the
  whole state of the application are the same afterwards (balance, amount
  withdrawn, both tables of the store, and the list of simulated payouts, so none
  was performed), and \<^verbatim>\<open>onWithdrawal\<close> is not called.
\<close>

theorem C4_insufficient_balance:
  assumes "selectedTier c = Some t" and "App_coins s < tier_coins t"
  shows "App_redeem e c s =
           (c, s, [if js_trim (paypalEmail c) = [] then Missing_Information
                   else Insufficient_Coins])"
  using assms by (simp add: App_redeem_def handleRedeem_def)

text \<open>The scenario of the specification: balance 4,000, tier 5,000 coins for 1 dollar.\<close>

theorem C4_witness:
  "App_redeem all_resolve
     (dialog \<lparr>tier_coins = 5000, tier_amount = 1, label = ''$1'', popular = None\<rparr> ''a@b.com'')
     (player 4000 0)
   = (dialog \<lparr>tier_coins = 5000, tier_amount = 1, label = ''$1'', popular = None\<rparr> ''a@b.com'',
      player 4000 0, [Insufficient_Coins])
   \<and> userStats (player 4000 0) = Some (stats_of 4000 0)
   \<and> db_withdrawals (player 4000 0) = []
   \<and> simulated_payouts (player 4000 0) = []"
proof -
  let ?t = "\<lparr>tier_coins = 5000, tier_amount = 1, label = ''$1'', popular = None\<rparr>"
  have tier: "selectedTier (dialog ?t ''a@b.com'') = Some ?t"
    by (simp add: dialog_def)
  have short: "App_coins (player 4000 0) < tier_coins ?t"
    by (simp add: App_coins_def player_def stats_of_def)
  have trim: "js_trim (paypalEmail (dialog ?t ''a@b.com'')) \<noteq> []"
    by (simp add: dialog_def js_trim_def js_space_def)
  from C4_insufficient_balance [OF tier short, of all_resolve] trim show ?thesis
    by (simp add: player_def)
qed

subsection \<open>The balance never goes negative\<close>

text \<open>A tap adds 100 coins whenever its update of the store resolves.\<close>

lemma App_tap_adds_100:
  assumes "ready s" and "userStats s = Some st" and "update_result e = Resolves"
  shows "userStats (App_tap e s) = Some (st\<lparr>totalCoins := totalCoins st + 100\<rparr>)"
  using assms
  by (auto simp: App_tap_def handleTap_def updateCoins_def ready_def App_coins_def Let_def
      split: option.splits)

text \<open>A redemption leaves the balance or takes the cost of a tier the balance covers.\<close>

lemma App_redeem_balance:
  assumes "App_redeem e c s = (c', s', toasts)"
  shows "App_coins s' = App_coins s
    \<or> (\<exists>t. selectedTier c = Some t \<and> tier_coins t \<le> App_coins s
           \<and> App_coins s' = App_coins s - tier_coins t)"
  using assms
  by (auto simp: App_redeem_def handleRedeem_def updateWithdrawal_def App_coins_def Let_def
      split: option.splits if_splits outcome.splits)

lemma App_coins_nonneg: "balance_ok s \<Longrightarrow> 0 \<le> App_coins s"
  by (simp add: balance_ok_def App_coins_def split: option.splits)

lemma list_all_db_update:
  "list_all P table \<Longrightarrow> (\<And>r. P r \<Longrightarrow> P (f r)) \<Longrightarrow> list_all P (db_update i f table)"
  by (induction table) (simp_all add: db_update_def)

lemma balance_ok_updateCoins:
  "balance_ok s \<Longrightarrow> 0 \<le> n \<Longrightarrow> balance_ok (updateCoins e n s)"
  by (auto simp: balance_ok_def updateCoins_def intro!: list_all_db_update
      split: option.splits outcome.splits)

lemma balance_ok_App_tap: "balance_ok s \<Longrightarrow> balance_ok (App_tap e s)"
  using App_coins_nonneg [of s]
  by (simp add: App_tap_def handleTap_def balance_ok_updateCoins)

lemma balance_ok_updateWithdrawal:
  assumes "balance_ok s" and "n \<le> App_coins s"
  shows "balance_ok (snd (updateWithdrawal e a n m s))"
  using assms
  by (auto simp: balance_ok_def updateWithdrawal_def App_coins_def Let_def
      intro!: list_all_db_update split: option.splits outcome.splits if_splits)

lemma balance_ok_App_redeem:
  assumes "balance_ok s"
  shows "balance_ok (fst (snd (App_redeem e c s)))"
proof (cases "\<exists>t. selectedTier c = Some t \<and> js_trim (paypalEmail c) \<noteq> [] \<and> tier_coins t \<le> App_coins s")
  case True
  then obtain t where t: "selectedTier c = Some t" "js_trim (paypalEmail c) \<noteq> []"
      "tier_coins t \<le> App_coins s"
    by blast
  from balance_ok_updateWithdrawal [OF assms t(3), of e "tier_amount t" "paypalEmail c"] t
  show ?thesis
    by (auto simp: App_redeem_def handleRedeem_def split: prod.splits bool.splits)
next
  case False
  with assms show ?thesis
    by (auto simp: App_redeem_def handleRedeem_def split: option.splits)
qed

lemma userStats_list_subset: "set (userStats_list uid k table) \<subseteq> set table"
  by (auto simp: userStats_list_def dest: in_set_takeD)

lemma balance_ok_loadUserStats:
  assumes "balance_ok s"
  shows "balance_ok (loadUserStats e s)"
proof -
  have "0 \<le> totalCoins st"
    if "userStats_list uid 1 (db_userStats s) = st # rest" for uid st rest
  proof -
    from that have "st \<in> set (userStats_list uid 1 (db_userStats s))" by simp
    with userStats_list_subset have "st \<in> set (db_userStats s)" by blast
    with assms show ?thesis by (simp add: balance_ok_def list_all_iff)
  qed
  with assms show ?thesis
    by (auto simp: loadUserStats_def balance_ok_def db_create_def Let_def
        split: option.splits outcome.splits list.splits)
qed

lemma balance_ok_user: "balance_ok (s\<lparr>user := u\<rparr>) = balance_ok s"
  by (simp add: balance_ok_def)

lemma balance_ok_step: "balance_ok (snd cs) \<Longrightarrow> balance_ok (snd (step ev cs))"
proof (cases cs)
  case (Pair c s)
  assume "balance_ok (snd cs)"
  with Pair have ok: "balance_ok s" by simp
  show ?thesis
  proof (cases ev)
    case (Confirm e)
    with Pair balance_ok_App_redeem [OF ok, of e c] show ?thesis
      by (auto split: prod.splits)
  qed (use Pair ok in \<open>simp_all add: balance_ok_App_tap balance_ok_loadUserStats balance_ok_user\<close>)
qed

text \<open>
  C5. From a state where the balance is non-negative (in the React state and in
  every record of the store), every sequence of sign-ins and sign-outs, loads of the
  user's record, taps, tier selections, typed addresses and confirmed redemptions
  ends in such a state: a tap writes the balance plus 100, and a redemption writes the balance
  minus the cost of the tier only after \<^verbatim>\<open>coins < selectedTier.coins\<close> was false.
\<close>

theorem C5_balance_never_negative:
  "balance_ok (snd cs) \<Longrightarrow> balance_ok (snd (run evs cs))"
  by (induction evs arbitrary: cs) (simp_all add: balance_ok_step)


text \<open>
  One tap from 4,900 coins, a redemption of 5,000 that succeeds, and a second one
  that the guard refuses.
\<close>

theorem C5_witness:
  "balance_ok (player 4900 0)
   \<and> userStats (snd (run
        [Tap all_resolve,
         Select \<lparr>tier_coins = 5000, tier_amount = 1, label = ''$1'', popular = None\<rparr>,
         Type_email ''a@b.com'', Confirm all_resolve,
         Select \<lparr>tier_coins = 5000, tier_amount = 1, label = ''$1'', popular = None\<rparr>,
         Type_email ''a@b.com'', Confirm all_resolve]
        (dialog \<lparr>tier_coins = 5000, tier_amount = 1, label = ''$1'', popular = None\<rparr> [],
         player 4900 0))) = Some (stats_of 0 1)
   \<and> balance_ok (snd (run
        [Tap all_resolve,
         Select \<lparr>tier_coins = 5000, tier_amount = 1, label = ''$1'', popular = None\<rparr>,
         Type_email ''a@b.com'', Confirm all_resolve,
         Select \<lparr>tier_coins = 5000, tier_amount = 1, label = ''$1'', popular = None\<rparr>,
         Type_email ''a@b.com'', Confirm all_resolve]
        (dialog \<lparr>tier_coins = 5000, tier_amount = 1, label = ''$1'', popular = None\<rparr> [],
         player 4900 0)))"
proof -
  let ?t = "\<lparr>tier_coins = 5000, tier_amount = 1, label = ''$1'', popular = None\<rparr>"
  let ?cs = "(dialog ?t [], player 4900 0)"
  have start: "balance_ok (snd ?cs)"
    by (simp add: balance_ok_def player_def stats_of_def)
  have trim: "js_trim ''a@b.com'' \<noteq> []"
    by (simp add: js_trim_def js_space_def)
  have final: "userStats (snd (run
        [Tap all_resolve, Select ?t, Type_email ''a@b.com'', Confirm all_resolve,
         Select ?t, Type_email ''a@b.com'', Confirm all_resolve] ?cs)) = Some (stats_of 0 1)"
    using trim
    by (simp add: App_tap_def handleTap_def updateCoins_def App_redeem_def handleRedeem_def
        updateWithdrawal_def App_coins_def db_update_def db_create_def dialog_def player_def
        stats_of_def all_resolve_def Let_def)
  have inv: "balance_ok (snd (run
        [Tap all_resolve, Select ?t, Type_email ''a@b.com'', Confirm all_resolve,
         Select ?t, Type_email ''a@b.com'', Confirm all_resolve] ?cs))"
    by (rule C5_balance_never_negative [OF start])
  from start have "balance_ok (player 4900 0)"
    by simp
  with final inv show ?thesis
    by blast
qed


subsection \<open>The payout HTTP function\<close>

lemma get_prop_defined:
  "b \<noteq> JNull \<Longrightarrow> b \<noteq> JUndefined \<Longrightarrow> \<exists>v. get_prop b k = Inr v"
  by (cases b) (auto split: option.splits)

lemma valid_address: "emailRegex_test ''a@b.com''"
  by (simp add: emailRegex_test_def emailRegex_def Plus_def not_space_at_def js_space_def)

text \<open>
  The way to the two calls: a \<^verbatim>\<open>POST\<close> whose four fields are truthy and whose address
  converts to a string that the pattern matches, with both secrets configured,
  reaches the token request; if that is answered with a status from 200 to 299, the
  fields convert to strings and a token can be read from the answer and converted,
  the payout request follows.
\<close>

lemma serve_token_refused:
  assumes "req_method req = ''POST''" and "req_json req = Inr b"
    and "get_prop b ''email'' = Inr email" and "get_prop b ''amount'' = Inr amount"
    and "get_prop b ''coins'' = Inr coins" and "get_prop b ''userId'' = Inr userId"
    and "truthy email" and "truthy amount" and "truthy coins" and "truthy userId"
    and "\<not> throws_ToString email"
    and "emailRegex_test (test_subject env email)"
    and "credentials env = Some (clientId, clientSecret)"
    and "fetch env (Token_call clientId clientSecret) = Inr tokenResponse"
    and "\<not> ok tokenResponse"
  shows "serve env req =
           (\<lparr>status = 500, headers = json_headers,
             body = Error_json ''Failed to authenticate with PayPal''\<rparr>,
            [Token_call clientId clientSecret])"
  using assms by (simp add: serve_def serve_try_def new_Response_def)

lemma serve_payout_refused:
  assumes "req_method req = ''POST''" and "req_json req = Inr b"
    and "get_prop b ''email'' = Inr email" and "get_prop b ''amount'' = Inr amount"
    and "get_prop b ''coins'' = Inr coins" and "get_prop b ''userId'' = Inr userId"
    and "truthy email" and "truthy amount" and "truthy coins" and "truthy userId"
    and "\<not> throws_ToString email"
    and "emailRegex_test (test_subject env email)"
    and "credentials env = Some (clientId, clientSecret)"
    and "fetch env (Token_call clientId clientSecret) = Inr tokenResponse"
    and "ok tokenResponse"
    and "f_json tokenResponse = Inr tokenData"
    and "\<not> throws_ToString userId" and "\<not> throws_toLocaleString coins"
    and "\<not> throws_ToString amount" and "\<not> throws_toString_call amount"
    and "get_prop tokenData ''access_token'' = Inr access_token"
    and "\<not> throws_ToString access_token"
    and "fetch env (Payout_call access_token email amount coins userId) = Inr payoutResponse"
    and "\<not> ok payoutResponse"
  shows "serve env req =
           (\<lparr>status = 500, headers = json_headers,
             body = Error_json ''Failed to process payout''\<rparr>,
            [Token_call clientId clientSecret,
             Payout_call access_token email amount coins userId])"
  using assms by (simp add: serve_def serve_try_def new_Response_def)

text \<open>
  Between the two calls: an \<^verbatim>\<open>amount\<close> that is an object with a property \<^verbatim>\<open>toString\<close>
  passes the checks, the token is fetched, and building \<^verbatim>\<open>payoutData\<close> throws; the
  \<^verbatim>\<open>catch\<close> answers 500 \<^verbatim>\<open>Internal server error\<close> and no payout request is made.
\<close>

lemma serve_payoutData_throws:
  "serve (gateway token_granted payout_created)
     (post (JStr ''a@b.com'') (JObj [(''toString'', JNum 1)]) (JNum 10000) (JStr ''u1''))
   = (\<lparr>status = 500, headers = json_headers, body = Internal_error_json TypeError\<rparr>,
      [Token_call ''client-id'' ''client-secret''])"
  using valid_address
  by (simp add: serve_def serve_try_def post_def gateway_def credentials_def test_subject_def
      token_granted_def response_of_def ok_def new_Response_def)

text \<open>
  C7. Whatever the request and the surroundings: if the first call the function made
  (it is the token request) was answered with a status outside 200..299, the
  function made no other call, so neither a payout request nor a second token
  request, and answers 500 with the fixed error \<^verbatim>\<open>Failed to authenticate with PayPal\<close>;
  if the second call (it is the payout request) was answered with such a status,
  there is no third call and the answer is 500 with the fixed error
  \<^verbatim>\<open>Failed to process payout\<close>. The answers are constants: nothing of the gateway's
  response is in them.
\<close>

theorem C7_gateway_failures:
  assumes "serve env req = (response, calls)"
  shows "(\<forall>c rest r. calls = c # rest \<and> fetch env c = Inr r \<and> \<not> ok r \<longrightarrow>
            (\<exists>i k. c = Token_call i k) \<and> rest = []
            \<and> response = \<lparr>status = 500, headers = json_headers,
                           body = Error_json ''Failed to authenticate with PayPal''\<rparr>)
       \<and> (\<forall>c1 c2 rest r. calls = c1 # c2 # rest \<and> fetch env c2 = Inr r \<and> \<not> ok r \<longrightarrow>
            (\<exists>t e a n u. c2 = Payout_call t e a n u) \<and> rest = []
            \<and> response = \<lparr>status = 500, headers = json_headers,
                           body = Error_json ''Failed to process payout''\<rparr>)"
  using assms
  by (auto simp: serve_def serve_try_def new_Response_def Let_def
      split: if_splits sum.splits option.splits prod.splits)

text \<open>A token request answered 401, and a payout request answered 422.\<close>

theorem C7_witness:
  "serve (gateway token_refused payout_created)
     (post (JStr ''a@b.com'') (JNum 5) (JNum 10000) (JStr ''u1''))
   = (\<lparr>status = 500, headers = json_headers,
       body = Error_json ''Failed to authenticate with PayPal''\<rparr>,
      [Token_call ''client-id'' ''client-secret''])
   \<and> serve (gateway token_granted payout_refused)
     (post (JStr ''a@b.com'') (JNum 5) (JNum 10000) (JStr ''u1''))
   = (\<lparr>status = 500, headers = json_headers, body = Error_json ''Failed to process payout''\<rparr>,
      [Token_call ''client-id'' ''client-secret'',
       Payout_call (JStr ''A21AA'') (JStr ''a@b.com'') (JNum 5) (JNum 10000) (JStr ''u1'')])"
proof -
  let ?req = "post (JStr ''a@b.com'') (JNum 5) (JNum 10000) (JStr ''u1'')"
  let ?e1 = "gateway token_refused payout_created"
  let ?e2 = "gateway token_granted payout_refused"
  let ?token = "Token_call ''client-id'' ''client-secret''"
  let ?payout = "Payout_call (JStr ''A21AA'') (JStr ''a@b.com'') (JNum 5) (JNum 10000) (JStr ''u1'')"
  have calls1: "snd (serve ?e1 ?req) = [?token]"
    using valid_address
    by (simp add: serve_def serve_try_def post_def gateway_def credentials_def test_subject_def
        token_refused_def response_of_def ok_def)
  have calls2: "snd (serve ?e2 ?req) = [?token, ?payout]"
    using valid_address
    by (simp add: serve_def serve_try_def post_def gateway_def credentials_def test_subject_def
        throws_toString_call_def token_granted_def payout_refused_def response_of_def ok_def)
  have refused1: "fetch ?e1 ?token = Inr token_refused" "\<not> ok token_refused"
    by (simp_all add: gateway_def token_refused_def response_of_def ok_def)
  have refused2: "fetch ?e2 ?payout = Inr payout_refused" "\<not> ok payout_refused"
    by (simp_all add: gateway_def payout_refused_def response_of_def ok_def)
  have run1: "serve ?e1 ?req = (fst (serve ?e1 ?req), [?token])"
    using calls1 by (simp add: prod_eq_iff)
  have run2: "serve ?e2 ?req = (fst (serve ?e2 ?req), [?token, ?payout])"
    using calls2 by (simp add: prod_eq_iff)
  from C7_gateway_failures [OF run1] refused1
  have "fst (serve ?e1 ?req) = \<lparr>status = 500, headers = json_headers,
          body = Error_json ''Failed to authenticate with PayPal''\<rparr>"
    by blast
  moreover from C7_gateway_failures [OF run2] refused2
  have "fst (serve ?e2 ?req) = \<lparr>status = 500, headers = json_headers,
          body = Error_json ''Failed to process payout''\<rparr>"
    by blast
  ultimately show ?thesis
    using calls1 calls2 by (simp add: prod_eq_iff)
qed

text \<open>
  C8 as stated fails: the answer to \<^verbatim>\<open>OPTIONS\<close> is built by
  \<^verbatim>\<open>new Response(null, { headers })\<close> with no \<^verbatim>\<open>status\<close>, so its status is 200, not 204.
\<close>

theorem C8_counterexample:
  "status (fst (serve (gateway token_granted payout_created)
                  \<lparr>req_method = ''OPTIONS'', req_json = Inl (Failure ''Unexpected end of JSON input'')\<rparr>))
   = 200
   \<and> status (fst (serve (gateway token_granted payout_created)
                  \<lparr>req_method = ''OPTIONS'', req_json = Inl (Failure ''Unexpected end of JSON input'')\<rparr>))
   \<noteq> 204"
  by (simp add: serve_def new_Response_def)

text \<open>
  C8, amended. Every \<^verbatim>\<open>OPTIONS\<close> request is answered with status 200, no body and the
  permissive CORS headers (any origin, methods \<^verbatim>\<open>POST, OPTIONS\<close>, headers
  \<^verbatim>\<open>Content-Type, Authorization\<close>), and no call of the gateway is made.
\<close>

theorem C8_options:
  assumes "req_method req = ''OPTIONS''"
  shows "serve env req = (\<lparr>status = 200, headers = cors_headers, body = Null_body\<rparr>, [])
    \<and> map_of cors_headers ''Access-Control-Allow-Origin'' = Some ''*''
    \<and> map_of cors_headers ''Access-Control-Allow-Methods'' = Some ''POST, OPTIONS''
    \<and> map_of cors_headers ''Access-Control-Allow-Headers'' = Some ''Content-Type, Authorization''"
  using assms by (simp add: serve_def new_Response_def cors_headers_def)

theorem C8_witness:
  "serve (gateway token_granted payout_created)
     \<lparr>req_method = ''OPTIONS'', req_json = Inl (Failure ''Unexpected end of JSON input'')\<rparr>
   = (\<lparr>status = 200, headers = cors_headers, body = Null_body\<rparr>, [])"
proof -
  have "req_method \<lparr>req_method = ''OPTIONS'',
          req_json = Inl (Failure ''Unexpected end of JSON input'')\<rparr> = ''OPTIONS''"
    by simp
  from C8_options [OF this] show ?thesis
    by blast
qed

text \<open>
  C9. A \<^verbatim>\<open>POST\<close> request whose body has a falsy value in \<^verbatim>\<open>email\<close>, \<^verbatim>\<open>amount\<close>,
  \<^verbatim>\<open>coins\<close> or \<^verbatim>\<open>userId\<close> (the number 0, the empty string, \<^verbatim>\<open>false\<close>, \<^verbatim>\<open>null\<close>, or
  the property missing) is answered 400 with the error \<^verbatim>\<open>Missing required fields\<close>,
  and no call of the gateway is made: so for \<^verbatim>\<open>amount = 0\<close> and \<^verbatim>\<open>coins = 0\<close>, although
  the property is present.
\<close>

theorem C9_falsy_fields:
  assumes "req_method req = ''POST''"
    and "req_json req = Inr b"
    and "k \<in> {''email'', ''amount'', ''coins'', ''userId''}"
    and "get_prop b k = Inr v"
    and "\<not> truthy v"
  shows "serve env req =
           (\<lparr>status = 400, headers = json_headers, body = Error_json ''Missing required fields''\<rparr>,
            [])"
proof -
  from assms(4) have b: "b \<noteq> JNull" "b \<noteq> JUndefined"
    by auto
  from get_prop_defined [OF b] obtain e a n u
    where props: "get_prop b ''email'' = Inr e" "get_prop b ''amount'' = Inr a"
      "get_prop b ''coins'' = Inr n" "get_prop b ''userId'' = Inr u"
    by metis
  with assms(3-5) have "\<not> truthy e \<or> \<not> truthy a \<or> \<not> truthy n \<or> \<not> truthy u"
    by auto
  with props assms(1,2) show ?thesis
    by (simp add: serve_def serve_try_def new_Response_def)
qed

text \<open>Bodies with \<^verbatim>\<open>amount: 0\<close> and with \<^verbatim>\<open>coins: 0\<close>.\<close>

theorem C9_witness:
  "serve (gateway token_granted payout_created)
     (post (JStr ''a@b.com'') (JNum 0) (JNum 10000) (JStr ''u1''))
   = (\<lparr>status = 400, headers = json_headers, body = Error_json ''Missing required fields''\<rparr>, [])
   \<and> serve (gateway token_granted payout_created)
     (post (JStr ''a@b.com'') (JNum 5) (JNum 0) (JStr ''u1''))
   = (\<lparr>status = 400, headers = json_headers, body = Error_json ''Missing required fields''\<rparr>, [])"
proof -
  let ?b1 = "JObj [(''email'', JStr ''a@b.com''), (''amount'', JNum 0), (''coins'', JNum 10000),
                   (''userId'', JStr ''u1'')]"
  let ?b2 = "JObj [(''email'', JStr ''a@b.com''), (''amount'', JNum 5), (''coins'', JNum 0),
                   (''userId'', JStr ''u1'')]"
  have "serve (gateway token_granted payout_created)
          (post (JStr ''a@b.com'') (JNum 0) (JNum 10000) (JStr ''u1'')) =
      (\<lparr>status = 400, headers = json_headers, body = Error_json ''Missing required fields''\<rparr>, [])"
    by (rule C9_falsy_fields [where b = ?b1 and k = "''amount''" and v = "JNum 0"])
      (simp_all add: post_def)
  moreover have "serve (gateway token_granted payout_created)
          (post (JStr ''a@b.com'') (JNum 5) (JNum 0) (JStr ''u1'')) =
      (\<lparr>status = 400, headers = json_headers, body = Error_json ''Missing required fields''\<rparr>, [])"
    by (rule C9_falsy_fields [where b = ?b2 and k = "''coins''" and v = "JNum 0"])
      (simp_all add: post_def)
  ultimately show ?thesis
    by blast
qed

subsection \<open>The pattern of \<^verbatim>\<open>emailRegex\<close>\<close>

text \<open>The matcher decides membership in the language of the expression.\<close>

lemma nullable_lang: "nullable r \<longleftrightarrow> [] \<in> lang r"
  by (induction r) (auto intro: star.empty)

lemma star_Cons:
  "c # w \<in> star A \<longleftrightarrow> (\<exists>u v. w = u @ v \<and> c # u \<in> A \<and> v \<in> star A)"
proof
  assume "c # w \<in> star A"
  then show "\<exists>u v. w = u @ v \<and> c # u \<in> A \<and> v \<in> star A"
  proof (induction "c # w" rule: star.induct)
    case (more u v)
    then show ?case
      by (cases u) auto
  qed
next
  assume "\<exists>u v. w = u @ v \<and> c # u \<in> A \<and> v \<in> star A"
  then obtain u v where "w = u @ v" "c # u \<in> A" "v \<in> star A"
    by blast
  then show "c # w \<in> star A"
    using star.more [of "c # u" A v] by simp
qed

lemma deriv_lang: "w \<in> lang (deriv c r) \<longleftrightarrow> c # w \<in> lang r"
proof (induction r arbitrary: w)
  case (Seq r s)
  then show ?case
    by (auto simp: nullable_lang Cons_eq_append_conv)
next
  case (Star r)
  then show ?case
    by (auto simp: star_Cons)
qed auto

lemma matches_lang: "matches r w \<longleftrightarrow> w \<in> lang r"
  by (induction w arbitrary: r) (simp_all add: nullable_lang deriv_lang)

lemma star_Class: "w \<in> star {[c] | c. p c} \<longleftrightarrow> list_all p w"
proof (induction w)
  case Nil
  show ?case by (simp add: star.empty)
next
  case (Cons c w)
  then show ?case
    by (auto simp: star_Cons)
qed

lemma lang_Plus_Class: "lang (Plus (Class p)) = {w. w \<noteq> [] \<and> list_all p w}"
proof (intro set_eqI)
  fix w
  show "w \<in> lang (Plus (Class p)) \<longleftrightarrow> w \<in> {w. w \<noteq> [] \<and> list_all p w}"
  proof (cases w)
    case Nil
    then show ?thesis by (simp add: Plus_def)
  next
    case (Cons c v)
    have "c # v \<in> lang (Plus (Class p)) \<longleftrightarrow> p c \<and> list_all p v"
    proof
      assume "c # v \<in> lang (Plus (Class p))"
      then show "p c \<and> list_all p v"
        by (auto simp: Plus_def star_Class)
    next
      assume "p c \<and> list_all p v"
      then have "[c] \<in> lang (Class p)" and "v \<in> lang (Star (Class p))"
        by (simp_all add: star_Class)
      then have "[c] @ v \<in> lang (Seq (Class p) (Star (Class p)))"
        unfolding lang.simps(4) by blast
      then show "c # v \<in> lang (Plus (Class p))"
        by (simp add: Plus_def)
    qed
    with Cons show ?thesis by simp
  qed
qed

text \<open>What the pattern asks of a whole string.\<close>

lemma emailRegex_test_iff:
  "emailRegex_test s \<longleftrightarrow>
     (\<exists>l d t. s = l @ ''@'' @ d @ ''.'' @ t \<and> l \<noteq> [] \<and> d \<noteq> [] \<and> t \<noteq> []
        \<and> list_all not_space_at l \<and> list_all not_space_at d \<and> list_all not_space_at t)"
proof -
  have "emailRegex_test s \<longleftrightarrow> s \<in> lang emailRegex"
    by (simp add: emailRegex_test_def matches_lang)
  also have "\<dots> \<longleftrightarrow> (\<exists>l d t. s = l @ ''@'' @ d @ ''.'' @ t \<and> l \<noteq> [] \<and> d \<noteq> [] \<and> t \<noteq> []
        \<and> list_all not_space_at l \<and> list_all not_space_at d \<and> list_all not_space_at t)"
    unfolding emailRegex_def lang.simps(4) lang_Plus_Class
    by (simp, blast)
  finally show ?thesis .
qed

text \<open>In particular a string without \<^verbatim>\<open>@\<close> is never matched.\<close>

lemma emailRegex_needs_at: "CHR ''@'' \<notin> set s \<Longrightarrow> \<not> emailRegex_test s"
  by (auto simp: emailRegex_test_iff)

subsection \<open>The checks of the destination address\<close>

text \<open>
  C3 as stated fails: \<^verbatim>\<open>handleRedeem\<close> only asks that the address is not blank. With
  the address \<^verbatim>\<open>notanemail\<close>, which the pattern does not match, and a balance that
  covers the tier, the simulated payout is performed, the balance is taken and a
  record for that address is created.
\<close>

theorem C3_counterexample:
  "\<not> emailRegex_test ''notanemail''
   \<and> snd (snd (App_redeem all_resolve
        (dialog \<lparr>tier_coins = 5000, tier_amount = 1, label = ''$1'', popular = None\<rparr> ''notanemail'')
        (player 5000 0))) = [Processing_Withdrawal, Withdrawal_Successful]
   \<and> userStats (fst (snd (App_redeem all_resolve
        (dialog \<lparr>tier_coins = 5000, tier_amount = 1, label = ''$1'', popular = None\<rparr> ''notanemail'')
        (player 5000 0)))) = Some (stats_of 0 1)
   \<and> simulated_payouts (fst (snd (App_redeem all_resolve
        (dialog \<lparr>tier_coins = 5000, tier_amount = 1, label = ''$1'', popular = None\<rparr> ''notanemail'')
        (player 5000 0)))) = [2000]
   \<and> map wd_paypalEmail (db_withdrawals (fst (snd (App_redeem all_resolve
        (dialog \<lparr>tier_coins = 5000, tier_amount = 1, label = ''$1'', popular = None\<rparr> ''notanemail'')
        (player 5000 0))))) = [''notanemail'']"
proof -
  have "\<not> emailRegex_test ''notanemail''"
    by (simp add: emailRegex_test_def emailRegex_def Plus_def not_space_at_def js_space_def)
  moreover have "js_trim ''notanemail'' \<noteq> []"
    by (simp add: js_trim_def js_space_def)
  ultimately show ?thesis
    by (simp add: App_redeem_def handleRedeem_def updateWithdrawal_def App_coins_def
        db_create_def dialog_def player_def stats_of_def all_resolve_def Let_def)
qed

text \<open>
  C3, amended. For every tier, \<^verbatim>\<open>handleRedeem\<close> rejects an address that is empty or
  only white space before the simulated payout, with no side effect: the state of
  the component and of the application are the same afterwards. The payout HTTP
  function answers a \<^verbatim>\<open>POST\<close> whose \<^verbatim>\<open>email\<close> is a string that the pattern
  \<^verbatim>\<open>/^[^\s@]+@[^\s@]+\.[^\s@]+$/\<close> does not match (the empty string included) with
  status 400, before any call of the gateway.
\<close>

theorem C3_email_checks:
  "(js_trim (paypalEmail c) = [] \<longrightarrow> App_redeem e c s = (c, s, [Missing_Information]))
   \<and> (req_method req = ''POST'' \<and> req_json req = Inr b \<and> get_prop b ''email'' = Inr (JStr a)
        \<and> \<not> emailRegex_test a \<longrightarrow>
      (\<exists>msg. serve env req =
                (\<lparr>status = 400, headers = json_headers, body = Error_json msg\<rparr>, [])
           \<and> (msg = ''Missing required fields'' \<or> msg = ''Invalid email format'')))"
proof (intro conjI impI)
  assume "js_trim (paypalEmail c) = []"
  then show "App_redeem e c s = (c, s, [Missing_Information])"
    by (simp add: App_redeem_def handleRedeem_def split: option.splits)
next
  assume "req_method req = ''POST'' \<and> req_json req = Inr b \<and> get_prop b ''email'' = Inr (JStr a)
        \<and> \<not> emailRegex_test a"
  then have req: "req_method req = ''POST''" "req_json req = Inr b"
    and email: "get_prop b ''email'' = Inr (JStr a)" and bad: "\<not> emailRegex_test a"
    by simp_all
  from email have b: "b \<noteq> JNull" "b \<noteq> JUndefined"
    by auto
  from get_prop_defined [OF b] obtain m n u
    where props: "get_prop b ''amount'' = Inr m" "get_prop b ''coins'' = Inr n"
      "get_prop b ''userId'' = Inr u"
    by metis
  from req email props bad
  show "\<exists>msg. serve env req =
                (\<lparr>status = 400, headers = json_headers, body = Error_json msg\<rparr>, [])
           \<and> (msg = ''Missing required fields'' \<or> msg = ''Invalid email format'')"
    by (simp add: serve_def serve_try_def new_Response_def test_subject_def)
qed

text \<open>An address of three spaces in the dialog, and \<^verbatim>\<open>notanemail\<close> posted to the function.\<close>

theorem C3_witness:
  "App_redeem all_resolve
     (dialog \<lparr>tier_coins = 5000, tier_amount = 1, label = ''$1'', popular = None\<rparr> ''   '')
     (player 5000 0)
   = (dialog \<lparr>tier_coins = 5000, tier_amount = 1, label = ''$1'', popular = None\<rparr> ''   '',
      player 5000 0, [Missing_Information])
   \<and> serve (gateway token_granted payout_created)
       (post (JStr ''notanemail'') (JNum 1) (JNum 5000) (JStr ''u1''))
     = (\<lparr>status = 400, headers = json_headers, body = Error_json ''Invalid email format''\<rparr>, [])"
proof -
  let ?c = "dialog \<lparr>tier_coins = 5000, tier_amount = 1, label = ''$1'', popular = None\<rparr> ''   ''"
  let ?b = "JObj [(''email'', JStr ''notanemail''), (''amount'', JNum 1), (''coins'', JNum 5000),
                  (''userId'', JStr ''u1'')]"
  let ?req = "post (JStr ''notanemail'') (JNum 1) (JNum 5000) (JStr ''u1'')"
  let ?env = "gateway token_granted payout_created"
  have blank: "js_trim (paypalEmail ?c) = []"
    by (simp add: dialog_def js_trim_def js_space_def)
  have bad: "\<not> emailRegex_test ''notanemail''"
    by (simp add: emailRegex_test_def emailRegex_def Plus_def not_space_at_def js_space_def)
  have req: "req_method ?req = ''POST'' \<and> req_json ?req = Inr ?b
      \<and> get_prop ?b ''email'' = Inr (JStr ''notanemail'') \<and> \<not> emailRegex_test ''notanemail''"
    using bad by (simp add: post_def)
  have not_missing: "body (fst (serve ?env ?req)) \<noteq> Error_json ''Missing required fields''"
    using bad
    by (simp add: serve_def serve_try_def new_Response_def test_subject_def post_def)
  from C3_email_checks [of ?c all_resolve "player 5000 0" ?req ?b "''notanemail''" ?env]
    blank req
  obtain msg where "App_redeem all_resolve ?c (player 5000 0) = (?c, player 5000 0, [Missing_Information])"
    and "serve ?env ?req = (\<lparr>status = 400, headers = json_headers, body = Error_json msg\<rparr>, [])"
    and "msg = ''Missing required fields'' \<or> msg = ''Invalid email format''"
    using blank by blast
  with not_missing show ?thesis
    by auto
qed


subsection \<open>The withdrawal history view\<close>

lemma descending_latest_first:
  "sorted_wrt (\<lambda>r r'. wd_createdAt r' \<le> wd_createdAt r) (rev (sort_key wd_createdAt rows))"
proof -
  have "sorted (map wd_createdAt (sort_key wd_createdAt rows))"
    by (rule sorted_sort_key)
  then show ?thesis
    by (simp add: sorted_wrt_rev sorted_wrt_map)
qed

text \<open>
  C10. \<^verbatim>\<open>loadWithdrawals\<close> asks the store for the user's withdrawals ordered by
  \<^verbatim>\<open>createdAt\<close> descending with limit 50. When the store answers, the view holds the
  first 50 of the user's records in that order: they are ordered latest first, every
  record of the user left out is no later than every record shown, and the count
  displayed is the smaller of 50 and the number of the user's records. A rejected
  call leaves the list; from the initial empty list the count never exceeds 50.
\<close>

theorem C10_history_latest_50:
  "loadWithdrawals_query userId =
     \<lparr>where_userId = userId, orderBy_createdAt = Some desc, limit = Some 50\<rparr>
   \<and> withdrawals (loadWithdrawals Resolves userId table h) =
       take 50 (rev (sort_key wd_createdAt (filter (\<lambda>r. wd_userId r = userId) table)))
   \<and> displayed_count (loadWithdrawals Resolves userId table h) =
       min 50 (length (filter (\<lambda>r. wd_userId r = userId) table))
   \<and> sorted_wrt (\<lambda>r r'. wd_createdAt r' \<le> wd_createdAt r)
       (withdrawals (loadWithdrawals Resolves userId table h))
   \<and> (\<exists>rest. mset (withdrawals (loadWithdrawals Resolves userId table h)) + mset rest =
                mset (filter (\<lambda>r. wd_userId r = userId) table)
            \<and> (\<forall>r \<in> set rest. \<forall>r' \<in> set (withdrawals (loadWithdrawals Resolves userId table h)).
                  wd_createdAt r \<le> wd_createdAt r'))
   \<and> withdrawals (loadWithdrawals Rejects userId table h) = withdrawals h
   \<and> displayed_count WithdrawalHistory_initial = 0
   \<and> (displayed_count h \<le> 50 \<longrightarrow> displayed_count (loadWithdrawals answer userId table h) \<le> 50)"
proof -
  let ?mine = "filter (\<lambda>r. wd_userId r = userId) table"
  let ?all = "rev (sort_key wd_createdAt ?mine)"
  have shown: "withdrawals (loadWithdrawals Resolves userId table h) = take 50 ?all"
    by (simp add: loadWithdrawals_def loadWithdrawals_query_def withdrawals_list_def
        limit_rows_def order_withdrawals_def)
  have ordered: "sorted_wrt (\<lambda>r r'. wd_createdAt r' \<le> wd_createdAt r) (take 50 ?all @ drop 50 ?all)"
    using descending_latest_first [of ?mine] by simp
  then have desc: "sorted_wrt (\<lambda>r r'. wd_createdAt r' \<le> wd_createdAt r) (take 50 ?all)"
    and later: "\<forall>r \<in> set (drop 50 ?all). \<forall>r' \<in> set (take 50 ?all). wd_createdAt r \<le> wd_createdAt r'"
    unfolding sorted_wrt_append by blast+
  have "mset (take 50 ?all) + mset (drop 50 ?all) = mset ?all"
    by (metis append_take_drop_id mset_append)
  then have parts: "mset (take 50 ?all) + mset (drop 50 ?all) = mset ?mine"
    by simp
  have count: "displayed_count (loadWithdrawals Resolves userId table h) = min 50 (length ?mine)"
    by (simp add: displayed_count_def shown min.commute)
  have cap: "displayed_count h \<le> 50 \<longrightarrow> displayed_count (loadWithdrawals answer userId table h) \<le> 50"
  proof (cases answer)
    case Resolves
    with count show ?thesis by simp
  next
    case Rejects
    then show ?thesis by (simp add: loadWithdrawals_def displayed_count_def)
  qed
  have q: "loadWithdrawals_query userId =
     \<lparr>where_userId = userId, orderBy_createdAt = Some desc, limit = Some 50\<rparr>"
    by (simp add: loadWithdrawals_query_def)
  have rej: "withdrawals (loadWithdrawals Rejects userId table h) = withdrawals h"
    by (simp add: loadWithdrawals_def)
  have init: "displayed_count WithdrawalHistory_initial = 0"
    by (simp add: displayed_count_def WithdrawalHistory_initial_def)
  from parts later have "\<exists>rest. mset (take 50 ?all) + mset rest = mset ?mine
            \<and> (\<forall>r \<in> set rest. \<forall>r' \<in> set (take 50 ?all). wd_createdAt r \<le> wd_createdAt r')"
    by blast
  with q shown count desc rej init cap show ?thesis
    by (simp only: simp_thms)
qed

text \<open>
  A user with 51 withdrawals sees 50; of three records, the user's two, latest first;
  and a rejected call on the initial state leaves the count at most 50.
\<close>

theorem C10_witness:
  "displayed_count (loadWithdrawals Resolves ''u1''
      (replicate 51 (withdrawal_at ''u1'' ''2023-11-14T22:13:20.000Z'')) WithdrawalHistory_initial)
   = 50
   \<and> withdrawals (loadWithdrawals Resolves ''u1''
      [withdrawal_at ''u1'' ''2023-11-14T22:13:20.000Z'',
       withdrawal_at ''u2'' ''2023-11-15T08:00:00.000Z'',
       withdrawal_at ''u1'' ''2023-11-16T09:30:00.000Z''] WithdrawalHistory_initial)
   = [withdrawal_at ''u1'' ''2023-11-16T09:30:00.000Z'',
      withdrawal_at ''u1'' ''2023-11-14T22:13:20.000Z'']
   \<and> displayed_count (loadWithdrawals Rejects ''u1''
      (replicate 51 (withdrawal_at ''u1'' ''2023-11-14T22:13:20.000Z'')) WithdrawalHistory_initial)
   \<le> 50"
proof -
  let ?r = "withdrawal_at ''u1'' ''2023-11-14T22:13:20.000Z''"
  have "displayed_count WithdrawalHistory_initial \<le> 50"
    by (simp add: displayed_count_def WithdrawalHistory_initial_def)
  with C10_history_latest_50 [of "''u1''" "replicate 51 ?r" WithdrawalHistory_initial Rejects]
  have capped: "displayed_count (loadWithdrawals Rejects ''u1'' (replicate 51 ?r)
      WithdrawalHistory_initial) \<le> 50"
    by blast
  have "length (filter (\<lambda>r. wd_userId r = ''u1'') (replicate 51 ?r)) = 51"
    by (simp add: withdrawal_at_def)
  with C10_history_latest_50 [of "''u1''" "replicate 51 ?r" WithdrawalHistory_initial Resolves]
  have "displayed_count (loadWithdrawals Resolves ''u1'' (replicate 51 ?r) WithdrawalHistory_initial) = 50"
    by simp
  moreover
  have "''2023-11-14T22:13:20.000Z'' \<le> ''2023-11-16T09:30:00.000Z''"
    by code_simp
  then have "take 50 (rev (sort_key wd_createdAt (filter (\<lambda>r. wd_userId r = ''u1'')
      [withdrawal_at ''u1'' ''2023-11-14T22:13:20.000Z'',
       withdrawal_at ''u2'' ''2023-11-15T08:00:00.000Z'',
       withdrawal_at ''u1'' ''2023-11-16T09:30:00.000Z''])))
   = [withdrawal_at ''u1'' ''2023-11-16T09:30:00.000Z'',
      withdrawal_at ''u1'' ''2023-11-14T22:13:20.000Z'']"
    by (simp add: withdrawal_at_def)
  with C10_history_latest_50 [of "''u1''" "[withdrawal_at ''u1'' ''2023-11-14T22:13:20.000Z'',
       withdrawal_at ''u2'' ''2023-11-15T08:00:00.000Z'',
       withdrawal_at ''u1'' ''2023-11-16T09:30:00.000Z'']" WithdrawalHistory_initial Resolves]
  have "withdrawals (loadWithdrawals Resolves ''u1''
      [withdrawal_at ''u1'' ''2023-11-14T22:13:20.000Z'',
       withdrawal_at ''u2'' ''2023-11-15T08:00:00.000Z'',
       withdrawal_at ''u1'' ''2023-11-16T09:30:00.000Z''] WithdrawalHistory_initial)
   = [withdrawal_at ''u1'' ''2023-11-16T09:30:00.000Z'',
      withdrawal_at ''u1'' ''2023-11-14T22:13:20.000Z'']"
    by simp
  ultimately show ?thesis
    using capped by blast
qed

end
